theory Spec2Isabelle
  imports Main
begin

section \<open>Data model (types/game.ts)\<close>

text \<open>
  JavaScript numbers that hold years, tolerances, indices and timestamps are modelled as
  unbounded integers (\<open>int\<close>), or as \<open>nat\<close> where the program only ever produces
  array positions. A \<open>Date\<close> is its time value (milliseconds since the epoch), with the
  local time zone taken to be UTC. Strings are lists of 8-bit characters (the Latin-1
  part of JavaScript's UTF-16 code units).
\<close>

type_synonym JSDate = int

datatype GamePhase = lobby | playing | results

record Player =
  player_id :: string
  name :: string
  isAlive :: bool
  isHost :: "bool option"

record HistoricalEvent =
  title :: string
  date :: JSDate
  year :: int
  month :: int
  day :: int
  wikipediaUrl :: "string option"
  description :: "string option"

record GameEvent =
  playerId :: string
  playerName :: string
  event :: HistoricalEvent
  wasChecked :: bool
  wasCorrect :: "bool option"
  timestamp :: int

record BufferRule =
  fromYear :: int
  toYear :: int
  bufferYears :: int

record GameSettings =
  startingCentury :: int
  bufferRules :: "BufferRule list"
  maxPlayers :: int
  requireDayPrecision :: bool

record GameState =
  gameId :: string
  phase :: GamePhase
  players :: "Player list"
  currentPlayerIndex :: nat
  eventChain :: "GameEvent list"
  settings :: GameSettings
  currentBuffer :: int
  lastCheckedEventIndex :: int

definition DEFAULT_BUFFER_RULES :: "BufferRule list" where
  "DEFAULT_BUFFER_RULES =
    [\<lparr>fromYear = 0, toYear = 999, bufferYears = 50\<rparr>,
     \<lparr>fromYear = 1000, toYear = 1499, bufferYears = 25\<rparr>,
     \<lparr>fromYear = 1500, toYear = 1799, bufferYears = 10\<rparr>,
     \<lparr>fromYear = 1800, toYear = 1899, bufferYears = 5\<rparr>,
     \<lparr>fromYear = 1900, toYear = 1949, bufferYears = 3\<rparr>,
     \<lparr>fromYear = 1950, toYear = 1999, bufferYears = 2\<rparr>,
     \<lparr>fromYear = 2000, toYear = 9999, bufferYears = 1\<rparr>]"

definition DEFAULT_SETTINGS :: GameSettings where
  "DEFAULT_SETTINGS =
    \<lparr>startingCentury = 12, bufferRules = DEFAULT_BUFFER_RULES,
     maxPlayers = 8, requireDayPrecision = False\<rparr>"

text \<open>
  Reading a JavaScript array at a numeric index: \<open>undefined\<close> (here \<open>None\<close>) outside
  \<open>0 .. length - 1\<close>.
\<close>

definition js_index :: "'a list \<Rightarrow> int \<Rightarrow> 'a option" where
  "js_index xs i = (if 0 \<le> i \<and> i < int (length xs) then Some (xs ! nat i) else None)"

datatype js_error = TypeError | RangeError

section \<open>Game logic (utils/gameLogic.ts)\<close>

text \<open>The \<open>for\<close> loop of \<open>calculateBuffer\<close> returns at the first rule that contains the year.\<close>

fun calculateBuffer :: "int \<Rightarrow> BufferRule list \<Rightarrow> int" where
  "calculateBuffer y [] = 1"
| "calculateBuffer y (rule # rules) =
     (if y \<ge> fromYear rule \<and> y \<le> toYear rule then bufferYears rule
      else calculateBuffer y rules)"

record BufferCheck =
  isValid :: bool
  yearDifference :: int

definition isEventWithinBuffer :: "HistoricalEvent \<Rightarrow> HistoricalEvent \<Rightarrow> int \<Rightarrow> BufferCheck" where
  "isEventWithinBuffer anchorEvent newEvent bufferYrs =
     (let yearDiff = year newEvent - year anchorEvent in
      if yearDiff < 0 then \<lparr>isValid = False, yearDifference = yearDiff\<rparr>
      else \<lparr>isValid = (yearDiff \<le> bufferYrs), yearDifference = yearDiff\<rparr>)"

definition getAnchorEvent :: "GameState \<Rightarrow> GameEvent option" where
  "getAnchorEvent gameState =
     (if length (eventChain gameState) = 0 then None
      else js_index (eventChain gameState) (lastCheckedEventIndex gameState))"

definition getCurrentYear :: "GameState \<Rightarrow> int" where
  "getCurrentYear gameState =
     (case getAnchorEvent gameState of
        Some anchorEvent \<Rightarrow> year (event anchorEvent)
      | None \<Rightarrow> startingCentury (settings gameState) * 100)"

text \<open>
  The \<open>details\<close> text of a challenge result is one of four messages; the two that
  interpolate numbers carry the year difference and the buffer.
\<close>

datatype Details =
    NoEventsToCheck
  | CannotCallFirstEvent
  | EventWasCorrect int int
  | EventWasIncorrect int int

record BullshitResult =
  success :: bool
  eliminatedPlayerId :: string
  wasEventCorrect :: bool
  details :: Details

definition processBullshitCall :: "GameState \<Rightarrow> string \<Rightarrow> BullshitResult" where
  "processBullshitCall gameState callingPlayerId =
     (if length (eventChain gameState) = 0 then
        \<lparr>success = False, eliminatedPlayerId = [], wasEventCorrect = True,
         details = NoEventsToCheck\<rparr>
      else
        let lastEvent = last (eventChain gameState) in
        case getAnchorEvent gameState of
          None \<Rightarrow>
            \<lparr>success = False, eliminatedPlayerId = callingPlayerId, wasEventCorrect = True,
             details = CannotCallFirstEvent\<rparr>
        | Some anchorEvent \<Rightarrow>
            let buffer = calculateBuffer (year (event anchorEvent))
                           (bufferRules (settings gameState));
                chk = isEventWithinBuffer (event anchorEvent) (event lastEvent) buffer
            in
              if isValid chk then
                \<lparr>success = False, eliminatedPlayerId = callingPlayerId,
                 wasEventCorrect = True,
                 details = EventWasCorrect (yearDifference chk) buffer\<rparr>
              else
                \<lparr>success = True, eliminatedPlayerId = playerId lastEvent,
                 wasEventCorrect = False,
                 details = EventWasIncorrect (yearDifference chk) buffer\<rparr>)"

definition isGameOver :: "GameState \<Rightarrow> bool" where
  "isGameOver gameState = (length (filter isAlive (players gameState)) \<le> 1)"

definition getWinner :: "GameState \<Rightarrow> string option" where
  "getWinner gameState =
     (let alivePlayers = filter isAlive (players gameState) in
      if length alivePlayers = 1 then Some (player_id (hd alivePlayers)) else None)"

section \<open>Strings\<close>

text \<open>
  \<open>toLowerCase\<close> on the 8-bit alphabet: the ASCII capitals and the Latin-1 capitals
  (\<open>0xC0 .. 0xDE\<close> without the multiplication sign \<open>0xD7\<close>) move up by 32.
\<close>

definition toLowerChar :: "char \<Rightarrow> char" where
  "toLowerChar c =
     (let n = (of_char c :: int) in
      if (65 \<le> n \<and> n \<le> 90) \<or> (192 \<le> n \<and> n \<le> 222 \<and> n \<noteq> 215)
      then char_of (n + 32) else c)"

definition toLowerCase :: "string \<Rightarrow> string" where
  "toLowerCase s = map toLowerChar s"

section \<open>The game context (context/GameContext.tsx)\<close>

text \<open>
  The React state cell holds \<open>GameState | null\<close>: a \<open>GameState option\<close>. Every
  operation takes the cell's content and returns the content after the call;
  \<open>Date.now()\<close>, the random identifiers and the fetched starting event are arguments.
  An operation that throws before it reaches \<open>setGameState\<close> returns \<open>Inl\<close> and
  leaves the cell as it was. \<open>alert\<close> has no effect on the state and is left out.
\<close>

function getNextPlayerIndex_loop :: "Player list \<Rightarrow> nat \<Rightarrow> nat \<Rightarrow> js_error + nat" where
  "getNextPlayerIndex_loop ps nextIndex attempts =
     (case js_index ps (int nextIndex) of
        None \<Rightarrow> Inl TypeError
      | Some p \<Rightarrow>
          if \<not> isAlive p \<and> attempts < length ps
          then getNextPlayerIndex_loop ps ((nextIndex + 1) mod length ps) (attempts + 1)
          else Inr nextIndex)"
  by pat_completeness auto
termination
  by (relation "measure (\<lambda>(ps, nextIndex, attempts). length ps - attempts)") auto

text \<open>With no players, \<open>(i + 1) % 0\<close> is \<open>NaN\<close> and \<open>players[NaN].isAlive\<close> throws.\<close>

definition getNextPlayerIndex :: "GameState \<Rightarrow> js_error + nat" where
  "getNextPlayerIndex gameState =
     (if players gameState = [] then Inl TypeError
      else getNextPlayerIndex_loop (players gameState)
             ((currentPlayerIndex gameState + 1) mod length (players gameState)) 0)"

definition createGame :: "string \<Rightarrow> string option \<Rightarrow> string \<Rightarrow> string \<Rightarrow> GameState option" where
  "createGame hostName gameIdArg generatedGameId generatedPlayerId =
     (let newGameId = (case gameIdArg of Some g \<Rightarrow> (if g = [] then generatedGameId else g)
                                       | None \<Rightarrow> generatedGameId);
          hostPlayer = \<lparr>player_id = generatedPlayerId, name = hostName, isAlive = True,
                        isHost = Some True\<rparr>
      in Some \<lparr>gameId = newGameId, phase = lobby, players = [hostPlayer],
               currentPlayerIndex = 0, eventChain = [], settings = DEFAULT_SETTINGS,
               currentBuffer = calculateBuffer ((startingCentury DEFAULT_SETTINGS - 1) * 100)
                                 (bufferRules DEFAULT_SETTINGS),
               lastCheckedEventIndex = - 1\<rparr>)"

definition joinGame :: "GameState option \<Rightarrow> string \<Rightarrow> string \<Rightarrow> GameState option" where
  "joinGame st playerNm generatedPlayerId =
     (case st of
        None \<Rightarrow> None
      | Some gameState \<Rightarrow>
          Some (gameState\<lparr>players := players gameState @
                  [\<lparr>player_id = generatedPlayerId, name = playerNm, isAlive = True,
                    isHost = None\<rparr>]\<rparr>))"

definition setPlayers :: "GameState option \<Rightarrow> Player list \<Rightarrow> GameState option" where
  "setPlayers st ps =
     (case st of None \<Rightarrow> None | Some gameState \<Rightarrow> Some (gameState\<lparr>players := ps\<rparr>))"

definition startGame ::
    "GameState option \<Rightarrow> Player list option \<Rightarrow> (int \<Rightarrow> HistoricalEvent option) \<Rightarrow> int
     \<Rightarrow> GameState option" where
  "startGame st playersArg fetchStartingEvent now =
     (case st of
        None \<Rightarrow> None
      | Some gameState \<Rightarrow>
          let gamePlayers = (case playersArg of Some ps \<Rightarrow> ps | None \<Rightarrow> players gameState) in
          if length gamePlayers < 2 then Some gameState
          else
            let updatedGameState =
                  (case playersArg of Some ps \<Rightarrow> gameState\<lparr>players := ps\<rparr>
                                    | None \<Rightarrow> gameState)
            in
            case fetchStartingEvent (startingCentury (settings updatedGameState)) of
              None \<Rightarrow> Some gameState
            | Some startingEvent \<Rightarrow>
                let initialGameEvent =
                      \<lparr>playerId = ''system'', playerName = ''Game'', event = startingEvent,
                       wasChecked = True, wasCorrect = Some True, timestamp = now\<rparr>;
                    initialBuffer = calculateBuffer (year startingEvent)
                                      (bufferRules (settings updatedGameState))
                in Some (updatedGameState\<lparr>phase := playing,
                           eventChain := [initialGameEvent],
                           lastCheckedEventIndex := 0,
                           currentBuffer := initialBuffer\<rparr>))"

record SubmitResult =
  submit_success :: bool
  message :: string

definition isDuplicate :: "GameState \<Rightarrow> HistoricalEvent \<Rightarrow> bool" where
  "isDuplicate gameState validatedEvent =
     list_ex (\<lambda>gameEvent. toLowerCase (title (event gameEvent)) = toLowerCase (title validatedEvent))
       (eventChain gameState)"

definition submitEvent ::
    "GameState option \<Rightarrow> HistoricalEvent \<Rightarrow> int
     \<Rightarrow> js_error + (GameState option \<times> SubmitResult)" where
  "submitEvent st validatedEvent now =
     (case st of
        None \<Rightarrow> Inr (None, \<lparr>submit_success = False, message = ''No active game''\<rparr>)
      | Some gameState \<Rightarrow>
          if isDuplicate gameState validatedEvent then
            Inr (Some gameState,
                 \<lparr>submit_success = False,
                  message = ''This event has already been submitted! Try a different one.''\<rparr>)
          else
            case js_index (players gameState) (int (currentPlayerIndex gameState)) of
              None \<Rightarrow> Inl TypeError
            | Some currentPlayer \<Rightarrow>
                let newGameEvent =
                      \<lparr>playerId = player_id currentPlayer, playerName = name currentPlayer,
                       event = validatedEvent, wasChecked = False, wasCorrect = None,
                       timestamp = now\<rparr>;
                    newEventChain = eventChain gameState @ [newGameEvent];
                    newLastCheckedIndex =
                      (if lastCheckedEventIndex gameState = - 1 then 0
                       else lastCheckedEventIndex gameState);
                    newBuffer = calculateBuffer (year validatedEvent)
                                  (bufferRules (settings gameState))
                in
                case getNextPlayerIndex gameState of
                  Inl e \<Rightarrow> Inl e
                | Inr nextPlayerIndex \<Rightarrow>
                    Inr (Some (gameState\<lparr>eventChain := newEventChain,
                                 currentPlayerIndex := nextPlayerIndex,
                                 currentBuffer := newBuffer,
                                 lastCheckedEventIndex := newLastCheckedIndex\<rparr>),
                         \<lparr>submit_success = True, message = ''Event submitted!''\<rparr>))"

text \<open>
  \<open>callBullshit\<close> reads \<open>updatedEventChain[newLastCheckedIndex].event.year\<close> before it
  stores the new state: on an empty chain the index is \<open>-1\<close>, the entry is
  \<open>undefined\<close> and the call throws.
\<close>

definition callBullshit :: "GameState option \<Rightarrow> string \<Rightarrow> js_error + GameState option" where
  "callBullshit st callerId =
     (case st of
        None \<Rightarrow> Inr None
      | Some gameState \<Rightarrow>
          let result = processBullshitCall gameState callerId;
              chain = eventChain gameState;
              updatedEventChain =
                (if length chain > 0
                 then chain[length chain - 1 :=
                        (chain ! (length chain - 1))\<lparr>wasChecked := True,
                           wasCorrect := Some (wasEventCorrect result)\<rparr>]
                 else chain);
              updatedPlayers =
                map (\<lambda>p. if player_id p = eliminatedPlayerId result then p\<lparr>isAlive := False\<rparr> else p)
                  (players gameState);
              newLastCheckedIndex =
                (if wasEventCorrect result then int (length updatedEventChain) - 1
                 else max 0 (int (length updatedEventChain) - 2));
              gameOver = isGameOver (gameState\<lparr>players := updatedPlayers\<rparr>)
          in
          case js_index updatedEventChain newLastCheckedIndex of
            None \<Rightarrow> Inl TypeError
          | Some anchorEntry \<Rightarrow>
              Inr (Some (gameState\<lparr>players := updatedPlayers,
                           eventChain := updatedEventChain,
                           lastCheckedEventIndex := newLastCheckedIndex,
                           phase := (if gameOver then results else playing),
                           currentBuffer := calculateBuffer (year (event anchorEntry))
                                              (bufferRules (settings gameState))\<rparr>)))"

record PartialSettings =
  new_startingCentury :: "int option"
  new_bufferRules :: "BufferRule list option"
  new_maxPlayers :: "int option"
  new_requireDayPrecision :: "bool option"

definition updateSettings :: "GameState option \<Rightarrow> PartialSettings \<Rightarrow> GameState option" where
  "updateSettings st upd =
     (case st of
        None \<Rightarrow> None
      | Some gameState \<Rightarrow>
          let old = settings gameState in
          Some (gameState\<lparr>settings :=
            \<lparr>startingCentury = (case new_startingCentury upd of Some v \<Rightarrow> v | None \<Rightarrow> startingCentury old),
             bufferRules = (case new_bufferRules upd of Some v \<Rightarrow> v | None \<Rightarrow> bufferRules old),
             maxPlayers = (case new_maxPlayers upd of Some v \<Rightarrow> v | None \<Rightarrow> maxPlayers old),
             requireDayPrecision =
               (case new_requireDayPrecision upd of Some v \<Rightarrow> v | None \<Rightarrow> requireDayPrecision old)\<rparr>\<rparr>))"

definition resetGame :: "GameState option \<Rightarrow> GameState option" where
  "resetGame st = None"

text \<open>
  The states the engine reaches: a successful \<open>startGame\<close> (at least two players and a
  fetched starting event) from any state, then any sequence of \<open>submitEvent\<close> and
  \<open>callBullshit\<close> calls that return.
\<close>

inductive reachable :: "GameState \<Rightarrow> bool" where
  start: "2 \<le> length (case playersArg of Some ps \<Rightarrow> ps | None \<Rightarrow> players g0) \<Longrightarrow>
          fetch (startingCentury (settings g0)) = Some ev \<Longrightarrow>
          startGame (Some g0) playersArg fetch now = Some g \<Longrightarrow> reachable g"
| submit: "reachable g \<Longrightarrow> submitEvent (Some g) ev now = Inr (Some g', r) \<Longrightarrow> reachable g'"
| call: "reachable g \<Longrightarrow> callBullshit (Some g) callerId = Inr (Some g') \<Longrightarrow> reachable g'"

definition unresolved :: "GameState \<Rightarrow> GameEvent list" where
  "unresolved g = filter (\<lambda>e. \<not> wasChecked e) (eventChain g)"

section \<open>Dates\<close>

text \<open>
  The day number of a civil date (days since 1 January 1970, proleptic Gregorian
  calendar, months \<open>1 .. 12\<close>) and back, as ECMAScript's \<open>MakeDay\<close>,
  \<open>YearFromTime\<close>, \<open>MonthFromTime\<close> and \<open>DateFromTime\<close> compute them.
\<close>

definition days_from_civil :: "int \<Rightarrow> int \<Rightarrow> int \<Rightarrow> int" where
  "days_from_civil y m d =
     (let y1 = (if m \<le> 2 then y - 1 else y);
          era = y1 div 400;
          yoe = y1 - era * 400;
          doy = (153 * (m + (if m > 2 then - 3 else 9)) + 2) div 5 + d - 1;
          doe = yoe * 365 + yoe div 4 - yoe div 100 + doy
      in era * 146097 + doe - 719468)"

definition civil_from_days :: "int \<Rightarrow> int \<times> int \<times> int" where
  "civil_from_days z =
     (let z1 = z + 719468;
          era = z1 div 146097;
          doe = z1 - era * 146097;
          yoe = (doe - doe div 1460 + doe div 36524 - doe div 146096) div 365;
          y = yoe + era * 400;
          doy = doe - (365 * yoe + yoe div 4 - yoe div 100);
          mp = (5 * doy + 2) div 153;
          d = doy - (153 * mp + 2) div 5 + 1;
          m = (if mp < 10 then mp + 3 else mp - 9)
      in (if m \<le> 2 then y + 1 else y, m, d))"

definition msPerDay :: int where
  "msPerDay = 86400000"

text \<open>
  \<open>new Date(year, month, day)\<close>: a year in \<open>0 .. 99\<close> means \<open>1900 + year\<close>; months and
  days beyond their range carry over.
\<close>

definition newDate :: "int \<Rightarrow> int \<Rightarrow> int \<Rightarrow> JSDate" where
  "newDate y m d =
     (let yr = (if 0 \<le> y \<and> y \<le> 99 then 1900 + y else y);
          ym = yr + m div 12;
          mn = m mod 12
      in (days_from_civil ym (mn + 1) 1 + d - 1) * msPerDay)"

definition getFullYear :: "JSDate \<Rightarrow> int" where
  "getFullYear t = fst (civil_from_days (t div msPerDay))"

definition getMonth :: "JSDate \<Rightarrow> int" where
  "getMonth t = fst (snd (civil_from_days (t div msPerDay))) - 1"

definition getDate :: "JSDate \<Rightarrow> int" where
  "getDate t = snd (snd (civil_from_days (t div msPerDay)))"

section \<open>JavaScript objects used as dictionaries\<close>

text \<open>
  An ordinary object is the list of its own enumerable properties, in the order
  \<open>Object.keys\<close> and \<open>JSON.stringify\<close> enumerate them: array-index keys first, in
  ascending numeric order, then the other keys in the order they were created. Its
  prototype is \<open>Object.prototype\<close>, whose properties a read falls back to.
\<close>

type_synonym 'v js_object = "(string \<times> 'v) list"

datatype 'v property = Undefined | Own 'v | Inherited

definition Object_prototype_names :: "string list" where
  "Object_prototype_names =
     [''constructor'', ''__proto__'', ''hasOwnProperty'', ''isPrototypeOf'',
      ''propertyIsEnumerable'', ''toLocaleString'', ''toString'', ''valueOf'',
      ''__defineGetter__'', ''__defineSetter__'', ''__lookupGetter__'', ''__lookupSetter__'']"

definition obj_get :: "'v js_object \<Rightarrow> string \<Rightarrow> 'v property" where
  "obj_get obj k =
     (case map_of obj k of
        Some v \<Rightarrow> Own v
      | None \<Rightarrow> if k \<in> set Object_prototype_names then Inherited else Undefined)"

definition isDigit :: "char \<Rightarrow> bool" where
  "isDigit c = (48 \<le> (of_char c :: int) \<and> (of_char c :: int) \<le> 57)"

definition keyNumber :: "string \<Rightarrow> int" where
  "keyNumber k = foldl (\<lambda>n c. 10 * n + ((of_char c :: int) - 48)) 0 k"

text \<open>An array index is the canonical decimal form of an integer below \<open>2^32 - 1\<close>.\<close>

definition isArrayIndex :: "string \<Rightarrow> bool" where
  "isArrayIndex k =
     (k \<noteq> [] \<and> list_all isDigit k \<and> (k = ''0'' \<or> hd k \<noteq> CHR ''0'') \<and>
      length k \<le> 10 \<and> keyNumber k < 4294967295)"

text \<open>
  \<open>obj[k] = v\<close>: assigning to \<open>__proto__\<close> runs the setter inherited from
  \<open>Object.prototype\<close>, which replaces the prototype and creates no own property; an
  existing own property keeps its place; a new array index goes among the array indices;
  any other new key goes last.
\<close>

definition obj_set :: "'v js_object \<Rightarrow> string \<Rightarrow> 'v \<Rightarrow> 'v js_object" where
  "obj_set obj k v =
     (if k = ''__proto__'' then obj
      else if k \<in> set (map fst obj) then map (\<lambda>(k', v'). if k' = k then (k', v) else (k', v')) obj
      else if isArrayIndex k then
        takeWhile (\<lambda>(k', v'). isArrayIndex k' \<and> keyNumber k' < keyNumber k) obj @ [(k, v)] @
        dropWhile (\<lambda>(k', v'). isArrayIndex k' \<and> keyNumber k' < keyNumber k) obj
      else obj @ [(k, v)])"

definition obj_delete :: "'v js_object \<Rightarrow> string \<Rightarrow> 'v js_object" where
  "obj_delete obj k = filter (\<lambda>(k', v'). k' \<noteq> k) obj"

definition obj_keys :: "'v js_object \<Rightarrow> string list" where
  "obj_keys obj = map fst obj"

section \<open>The event cache (services/eventCache.ts)\<close>

text \<open>
  \<open>toISOString\<close> writes a time value in UTC to the millisecond and \<open>new Date\<close> of that
  string reads the same time value back; the string is represented by the time value it
  denotes.
\<close>

type_synonym iso_string = int

definition toISOString :: "JSDate \<Rightarrow> iso_string" where
  "toISOString t = t"

definition dateFromISOString :: "iso_string \<Rightarrow> JSDate" where
  "dateFromISOString s = s"

definition CACHE_VERSION :: int where
  "CACHE_VERSION = 1"

definition MAX_CACHE_SIZE :: nat where
  "MAX_CACHE_SIZE = 500"

text \<open>
  \<open>CachedEvent extends HistoricalEvent\<close>; in the cache its \<open>date\<close> holds the ISO string.
\<close>

record CachedEvent = HistoricalEvent +
  cachedAt :: int

record EventCache =
  version :: int
  events :: "CachedEvent js_object"

text \<open>
  What \<open>localStorage\<close> holds under \<open>CACHE_KEY\<close>: nothing, a text that \<open>JSON.parse\<close>
  rejects, or the JSON text of a cache. Writing to \<open>localStorage\<close> is taken to succeed.
\<close>

datatype StoredItem = Absent | Corrupt | Stored EventCache

definition emptyCache :: EventCache where
  "emptyCache = \<lparr>version = CACHE_VERSION, events = []\<rparr>"

definition getCache :: "StoredItem \<Rightarrow> EventCache" where
  "getCache item =
     (case item of
        Absent \<Rightarrow> emptyCache
      | Corrupt \<Rightarrow> emptyCache
      | Stored parsed \<Rightarrow> if version parsed \<noteq> CACHE_VERSION then emptyCache else parsed)"

definition saveCache :: "EventCache \<Rightarrow> StoredItem" where
  "saveCache cache =
     (let eventKeys = obj_keys (events cache) in
      if length eventKeys > MAX_CACHE_SIZE then
        let sortedKeys = map fst (sort_key (\<lambda>(k, v). cachedAt v) (events cache));
            toRemove = take (length eventKeys - MAX_CACHE_SIZE) sortedKeys
        in Stored (cache\<lparr>events := foldl obj_delete (events cache) toRemove\<rparr>)
      else Stored cache)"

definition isSpace :: "char \<Rightarrow> bool" where
  "isSpace c = ((of_char c :: int) \<in> {9, 10, 11, 12, 13, 32, 160})"

definition trim :: "string \<Rightarrow> string" where
  "trim s = rev (dropWhile isSpace (rev (dropWhile isSpace s)))"

text \<open>\<open>replace(/\s+/g, ' ')\<close>: every maximal run of white space becomes one space.\<close>

function collapseSpaces :: "string \<Rightarrow> string" where
  "collapseSpaces [] = []"
| "collapseSpaces (c # cs) =
     (if isSpace c then CHR '' '' # collapseSpaces (dropWhile isSpace cs)
      else c # collapseSpaces cs)"
  by pat_completeness auto
termination
  by (relation "measure length") (auto simp: length_dropWhile_le less_Suc_eq_le)

definition normalizeEventName :: "string \<Rightarrow> string" where
  "normalizeEventName nm = collapseSpaces (trim (toLowerCase nm))"

text \<open>
  \<open>getCachedEvent\<close> returns \<open>null\<close>, or the cached event, or, when the key names a
  property of \<open>Object.prototype\<close> that the cache does not own, what the code builds from
  that inherited value: an object with none of the event's fields and an invalid date.
\<close>

datatype CacheLookup = NotCached | CachedHit HistoricalEvent | PrototypeValue

definition getCachedEvent :: "StoredItem \<Rightarrow> string \<Rightarrow> CacheLookup" where
  "getCachedEvent item eventName =
     (let cache = getCache item;
          key = normalizeEventName eventName
      in case obj_get (events cache) key of
           Undefined \<Rightarrow> NotCached
         | Inherited \<Rightarrow> PrototypeValue
         | Own cached \<Rightarrow>
             CachedHit \<lparr>title = title cached, date = dateFromISOString (date cached),
                        year = year cached, month = month cached, day = day cached,
                        wikipediaUrl = wikipediaUrl cached,
                        description = description cached\<rparr>)"

definition cacheEvent :: "StoredItem \<Rightarrow> string \<Rightarrow> HistoricalEvent \<Rightarrow> int \<Rightarrow> StoredItem" where
  "cacheEvent item eventName ev now =
     (let cache = getCache item;
          key = normalizeEventName eventName
      in saveCache (cache\<lparr>events := obj_set (events cache) key
           \<lparr>title = title ev, date = toISOString (date ev), year = year ev, month = month ev,
            day = day ev, wikipediaUrl = wikipediaUrl ev, description = description ev,
            cachedAt = now\<rparr>\<rparr>))"

definition clearCache :: "StoredItem \<Rightarrow> StoredItem" where
  "clearCache item = Absent"

definition getCacheStats :: "StoredItem \<Rightarrow> nat \<times> nat" where
  "getCacheStats item = (length (obj_keys (events (getCache item))), MAX_CACHE_SIZE)"

section \<open>Regular expressions\<close>

text \<open>
  The part of JavaScript's regular expressions that the source uses: literals, the
  classes \<open>\d\<close>, \<open>\s\<close>, \<open>.\<close> and \<open>[...]\<close>, the assertions \<open>\b\<close>, \<open>^\<close> and \<open>$\<close>,
  sequence, ordered alternation, the greedy \<open>*\<close> and \<open>?\<close>, the lazy \<open>*?\<close>, and numbered
  capture groups. The other quantifiers are written with these.
\<close>

datatype rx =
    Eps
  | Chr char
  | Digit
  | Space
  | AnyChar
  | OneOf "char list"
  | WordB
  | Bol
  | Eol
  | Seq rx rx
  | Alt rx rx
  | Opt rx
  | Star rx
  | Lazy rx
  | Grp nat rx

text \<open>
  \<open>Canonicalize\<close> of the case-insensitive comparison, on the 8-bit alphabet: a character
  is replaced by its capital when that is again one character of the alphabet.
\<close>

definition canonicalize :: "char \<Rightarrow> char" where
  "canonicalize c =
     (let n = (of_char c :: int) in
      if (97 \<le> n \<and> n \<le> 122) \<or> (224 \<le> n \<and> n \<le> 254 \<and> n \<noteq> 247)
      then char_of (n - 32) else c)"

definition sameChar :: "bool \<Rightarrow> char \<Rightarrow> char \<Rightarrow> bool" where
  "sameChar ignoreCase a b = (if ignoreCase then canonicalize a = canonicalize b else a = b)"

definition isWordChar :: "char \<Rightarrow> bool" where
  "isWordChar c =
     (let n = (of_char c :: int) in
      (48 \<le> n \<and> n \<le> 57) \<or> (65 \<le> n \<and> n \<le> 90) \<or> (97 \<le> n \<and> n \<le> 122) \<or> n = 95)"

definition isLineTerminator :: "char \<Rightarrow> bool" where
  "isLineTerminator c = ((of_char c :: int) = 10 \<or> (of_char c :: int) = 13)"

text \<open>
  A matcher state: the character before the current position (none at the start of the
  text), the rest of the text, and the captures made so far (latest first).
\<close>

type_synonym mstate = "char option \<times> string \<times> (nat \<times> string) list"

definition step :: "(char \<Rightarrow> bool) \<Rightarrow> mstate \<Rightarrow> mstate list" where
  "step ok st =
     (case st of (p, s, caps) \<Rightarrow>
        (case s of [] \<Rightarrow> [] | x # xs \<Rightarrow> if ok x then [(Some x, xs, caps)] else []))"

definition rest_length :: "mstate \<Rightarrow> nat" where
  "rest_length st = length (fst (snd st))"

definition atWordBoundary :: "mstate \<Rightarrow> bool" where
  "atWordBoundary st =
     (case st of (p, s, caps) \<Rightarrow>
        (case p of None \<Rightarrow> False | Some c \<Rightarrow> isWordChar c) \<noteq>
        (case s of [] \<Rightarrow> False | x # xs \<Rightarrow> isWordChar x))"

definition capture :: "nat \<Rightarrow> mstate \<Rightarrow> mstate \<Rightarrow> mstate" where
  "capture n st st' =
     (case st' of (p', s', caps') \<Rightarrow>
        (p', s', (n, take (rest_length st - length s') (fst (snd st))) # caps'))"

text \<open>
  All the ways the expression matches at the state, in the order a backtracking matcher
  tries them. A repetition goes on only after an iteration that consumed something.
\<close>

function matches :: "bool \<Rightarrow> rx \<Rightarrow> mstate \<Rightarrow> mstate list" where
  "matches ic Eps st = [st]"
| "matches ic (Chr c) st = step (\<lambda>x. sameChar ic x c) st"
| "matches ic Digit st = step isDigit st"
| "matches ic Space st = step isSpace st"
| "matches ic AnyChar st = step (\<lambda>x. \<not> isLineTerminator x) st"
| "matches ic (OneOf cs) st = step (\<lambda>x. list_ex (sameChar ic x) cs) st"
| "matches ic WordB st = (if atWordBoundary st then [st] else [])"
| "matches ic Bol st = (if fst st = None then [st] else [])"
| "matches ic Eol st = (if fst (snd st) = [] then [st] else [])"
| "matches ic (Seq a b) st = concat (map (matches ic b) (matches ic a st))"
| "matches ic (Alt a b) st = matches ic a st @ matches ic b st"
| "matches ic (Opt a) st = matches ic a st @ [st]"
| "matches ic (Star a) st =
     concat (map (matches ic (Star a))
               (filter (\<lambda>st'. rest_length st' < rest_length st) (matches ic a st))) @ [st]"
| "matches ic (Lazy a) st =
     st # concat (map (matches ic (Lazy a))
                    (filter (\<lambda>st'. rest_length st' < rest_length st) (matches ic a st)))"
| "matches ic (Grp n a) st = map (capture n st) (matches ic a st)"
  by pat_completeness auto
termination
  by (relation "measures [\<lambda>(ic, r, st). size r, \<lambda>(ic, r, st). rest_length st]") auto

text \<open>The leftmost match: the first way to match at the earliest position that has one.\<close>

fun search :: "bool \<Rightarrow> rx \<Rightarrow> char option \<Rightarrow> string \<Rightarrow> mstate option" where
  "search ic r p [] = (case matches ic r (p, [], []) of [] \<Rightarrow> None | st # sts \<Rightarrow> Some st)"
| "search ic r p (c # cs) =
     (case matches ic r (p, c # cs, []) of
        [] \<Rightarrow> search ic r (Some c) cs
      | st # sts \<Rightarrow> Some st)"

text \<open>\<open>regex.test(text)\<close> and \<open>text.match(regex)\<close> for a regex without the \<open>g\<close> flag.\<close>

definition rx_test :: "bool \<Rightarrow> rx \<Rightarrow> string \<Rightarrow> bool" where
  "rx_test ic r text = (search ic r None text \<noteq> None)"

definition rx_match :: "bool \<Rightarrow> rx \<Rightarrow> string \<Rightarrow> (nat \<times> string) list option" where
  "rx_match ic r text = map_option (\<lambda>st. snd (snd st)) (search ic r None text)"

text \<open>A group that took no part in the match reads as \<open>undefined\<close>.\<close>

definition group :: "(nat \<times> string) list \<Rightarrow> nat \<Rightarrow> string option" where
  "group caps n = map_of caps n"

text \<open>
  For writing the patterns down: a literal text, a sequence, ordered alternatives, a choice
  among literal words, and \<open>+\<close>.
\<close>

fun Str :: "string \<Rightarrow> rx" where
  "Str [] = Eps"
| "Str [c] = Chr c"
| "Str (c # cs) = Seq (Chr c) (Str cs)"

fun Cat :: "rx list \<Rightarrow> rx" where
  "Cat [] = Eps"
| "Cat [r] = r"
| "Cat (r # rs) = Seq r (Cat rs)"

fun Alts :: "rx list \<Rightarrow> rx" where
  "Alts [] = OneOf []"
| "Alts [r] = r"
| "Alts (r # rs) = Alt r (Alts rs)"

definition Words :: "string list \<Rightarrow> rx" where
  "Words ws = Alts (map Str ws)"

definition Plus :: "rx \<Rightarrow> rx" where
  "Plus r = Seq r (Star r)"

section \<open>The Wikipedia service (services/wikipedia.ts)\<close>

text \<open>
  The patterns of the source, in its order. One character class of the source holds the
  hyphen and the en dash; the en dash lies outside the 8-bit alphabet, where the class
  (\<open>Dash\<close>) is the hyphen alone.
\<close>

definition MonthName :: rx where
  "MonthName =
     Words [''January'', ''February'', ''March'', ''April'', ''May'', ''June'', ''July'',
            ''August'', ''September'', ''October'', ''November'', ''December'']"

definition Digits12 :: rx where
  "Digits12 = Cat [Digit, Opt Digit]"

definition Digits34 :: rx where
  "Digits34 = Cat [Digit, Digit, Digit, Opt Digit]"

definition Digits4 :: rx where
  "Digits4 = Cat [Digit, Digit, Digit, Digit]"

definition Dash :: rx where
  "Dash = OneOf [CHR ''-'']"

definition timePeriodOrMetaPatterns :: "rx list" where
  "timePeriodOrMetaPatterns =
     [Cat [Bol, Grp 1 (Words [''List of'', ''Timeline of'', ''Category:'', ''Index of''])],
      Cat [Bol, Plus Digit, Grp 1 (Words [''st'', ''nd'', ''rd'', ''th'']), Str '' century'', Eol],
      Cat [Bol, Digits4, Opt (Chr (CHR ''s'')), Eol],
      Cat [Bol, Plus Digit, Grp 1 (Words [''st'', ''nd'', ''rd'', ''th'']), Str '' millennium'', Eol],
      Cat [Bol, Grp 1 MonthName, Chr (CHR '' ''), Digits4, Eol],
      Cat [Bol, Grp 1 MonthName, Chr (CHR '' ''), Digits12, Eol],
      Cat [Bol, Digits4, Eol],
      Cat [Bol, Str ''AD '', Plus Digit, Eol],
      Cat [Bol, Str ''BC '', Plus Digit, Eol]]"

definition isTimePeriodOrMetaPage :: "string \<Rightarrow> bool" where
  "isTimePeriodOrMetaPage ttl = list_ex (\<lambda>r. rx_test True r ttl) timePeriodOrMetaPatterns"

definition biographicalPatterns :: "rx list" where
  "biographicalPatterns =
     [Cat [WordB, Grp 1 (Words [''was'', ''is'']), Str '' a '', Grp 2 (Words [''person'',
              ''politician'', ''writer'', ''author'', ''artist'', ''musician'', ''actor'',
              ''scientist'', ''philosopher'', ''composer'', ''director'', ''inventor'',
              ''explorer'', ''emperor'', ''king'', ''queen'', ''president'', ''general'']),
          WordB],
      Cat [WordB, Grp 1 (Words [''was born'', ''born in'', ''born on'']), WordB],
      Cat [WordB, Grp 1 (Words [''died'', ''death'']), WordB]]"

definition isBiographical :: "string \<Rightarrow> bool" where
  "isBiographical lowerText = list_ex (\<lambda>r. rx_test True r lowerText) biographicalPatterns"

definition birthPattern1 :: rx where
  "birthPattern1 =
     Cat [WordB, Opt (Str ''was ''), Str ''born'', Plus Space, Opt (Cat [Str ''on'', Plus Space]),
         Grp 1 Digits12, Plus Space, Grp 2 MonthName, Plus Space, Grp 3 Digits34, WordB]"

definition birthPattern2 :: rx where
  "birthPattern2 =
     Cat [WordB, Opt (Str ''was ''), Str ''born'', Plus Space, Opt (Cat [Str ''on'', Plus Space]),
         Grp 1 MonthName, Plus Space, Grp 2 Digits12, Opt (Chr (CHR '','')), Plus Space,
         Grp 3 Digits34, WordB]"

definition deathPattern1 :: rx where
  "deathPattern1 =
     Cat [WordB, Words [''died'', ''death''], Plus Space, Opt (Cat [Str ''on'', Plus Space]),
         Grp 1 Digits12, Plus Space, Grp 2 MonthName, Plus Space, Grp 3 Digits34, WordB]"

definition deathPattern2 :: rx where
  "deathPattern2 =
     Cat [WordB, Words [''died'', ''death''], Plus Space, Opt (Cat [Str ''on'', Plus Space]),
         Grp 1 MonthName, Plus Space, Grp 2 Digits12, Opt (Chr (CHR '','')), Plus Space,
         Grp 3 Digits34, WordB]"

definition timePeriodsAndOverviews :: "rx list" where
  "timePeriodsAndOverviews =
     [Cat [WordB, Str ''is a '', Grp 1 (Words [''decade'', ''century'', ''millennium'', ''era'',
              ''period'', ''age'']), WordB],
      Cat [WordB, Str ''this article is about the '', Grp 1 (Words [''decade'', ''century'',
              ''year'']), WordB],
      Cat [WordB, Str ''following '', Grp 1 (Alts [Cat [Str ''decade'', Opt (Chr (CHR ''s''))],
              Str ''centuries'', Cat [Str ''year'', Opt (Chr (CHR ''s''))]]), Chr (CHR '' ''),
          Grp 2 (Words [''are'', ''were'']), WordB],
      Cat [WordB, Str ''year'', Opt (Chr (CHR ''s'')), Str '' in the '', Plus Digit,
          Grp 1 (Words [''st'', ''nd'', ''rd'', ''th'']), Str '' century'', WordB],
      Cat [WordB, Str ''events in the year '', Digits4, WordB]]"

definition excludePatterns :: "rx list" where
  "excludePatterns =
     [Cat [WordB, Str ''is a '', Grp 1 (Words [''country'', ''city'', ''town'', ''village'',
              ''state'', ''province'', ''region'', ''continent'']), WordB],
      Cat [WordB, Str ''is a '', Grp 1 (Words [''language'', ''religion'', ''ideology'',
              ''philosophy'', ''theory'']), WordB],
      Cat [WordB, Str ''is a '', Grp 1 (Words [''turboprop'', ''engine'', ''aircraft'', ''airplane'',
              ''helicopter'', ''ship'', ''boat'', ''vessel'', ''vehicle'', ''car'',
              ''automobile'', ''tank'', ''submarine'']), WordB],
      Cat [WordB, Str ''is '', Grp 1 (Words [''a'', ''an'']), Chr (CHR '' ''),
          Grp 2 (Words [''family'', ''series'', ''line'']), Str '' of '',
          Grp 3 (Alts [Str ''aircraft'', Cat [Str ''engine'', Opt (Chr (CHR ''s''))],
              Cat [Str ''vehicle'', Opt (Chr (CHR ''s''))], Cat [Str ''product'',
                Opt (Chr (CHR ''s''))]]), WordB],
      Cat [WordB, Grp 1 (Words [''developed'', ''manufactured'', ''produced'']), Str '' by'', WordB],
      Cat [WordB, Str ''is a '', Grp 1 (Words [''software'', ''hardware'', ''device'', ''product'',
              ''brand'', ''model'', ''prototype'']), WordB],
      Cat [WordB, Str ''is a '', Grp 1 (Words [''computer'', ''processor'', ''chip'', ''component'']),
          WordB],
      Cat [WordB, Str ''is a list of'', WordB],
      Cat [WordB, Str ''list of'', WordB],
      Cat [WordB, Str ''timeline of'', WordB],
      Cat [WordB, Str ''category:'']]"

definition eventPatterns :: "rx list" where
  "eventPatterns =
     [Cat [WordB, Grp 1 (Words [''battle'', ''war'', ''conflict'', ''siege'', ''invasion'',
              ''conquest'']), WordB],
      Cat [WordB, Grp 1 (Words [''treaty'', ''agreement'', ''pact'', ''accord'', ''convention'']),
          WordB],
      Cat [WordB, Grp 1 (Words [''revolution'', ''uprising'', ''rebellion'', ''revolt'']), WordB],
      Cat [WordB, Grp 1 (Words [''assassination'', ''murder'', ''execution'']), WordB],
      Cat [WordB, Grp 1 (Words [''disaster'', ''earthquake'', ''flood'', ''fire'', ''explosion'']),
          WordB],
      Cat [WordB, Grp 1 (Words [''discovery'', ''invention'', ''founded'', ''established'']), WordB],
      Cat [WordB, Grp 1 (Words [''occurred'', ''took place'', ''happened'']), WordB],
      Cat [WordB, Str ''was a '', Grp 1 (Words [''military'', ''major'', ''significant'',
              ''historical'']), Chr (CHR '' ''), Grp 2 (Words [''event'', ''operation'',
              ''campaign'']), WordB],
      Cat [WordB, Grp 1 (Words [''coronation'', ''abdication'', ''election'']), WordB],
      Cat [WordB, Grp 1 (Words [''declaration'', ''proclamation'', ''announcement'']), WordB],
      Cat [WordB, Grp 1 (Words [''released'', ''published'', ''premiered'', ''launched'']), WordB],
      Cat [WordB, Str ''is a '', Grp 1 Digits4, Chr (CHR '' ''), Grp 2 (Words [''book'', ''novel'',
              ''film'', ''movie'', ''album'', ''video game'']), WordB],
      Cat [WordB, Str ''was released '', Grp 1 (Words [''in'', ''on'']), WordB],
      Cat [WordB, Str ''was published '', Grp 1 (Words [''in'', ''on'']), WordB]]"

definition monthRangePattern :: rx where
  "monthRangePattern =
     Cat [WordB, Grp 1 MonthName, Plus Space, Grp 2 Digits12, Star Space, Dash, Star Space,
         Grp 3 Digits12, Opt (Chr (CHR '','')), Plus Space, Grp 4 Digits34, WordB]"

definition dayRangePattern :: rx where
  "dayRangePattern =
     Cat [WordB, Grp 1 Digits12, Star Space, Dash, Star Space, Grp 2 Digits12, Plus Space,
         Grp 3 MonthName, Plus Space, Grp 4 Digits34, WordB]"

definition crossMonthRangePattern :: rx where
  "crossMonthRangePattern =
     Cat [WordB, Grp 1 MonthName, Plus Space, Grp 2 Digits12, Plus Space, Alts [Str ''to'', Dash],
         Plus Space, Grp 3 MonthName, Plus Space, Grp 4 Digits12, Opt (Chr (CHR '','')),
         Plus Space, Grp 5 Digits34, WordB]"

definition releaseDateRangePattern1 :: rx where
  "releaseDateRangePattern1 =
     Cat [WordB, Grp 1 (Words [''released'', ''published'', ''premiered'', ''launched'']),
         Lazy AnyChar, WordB, Words [''from'', ''on''], Plus Space, Grp 2 MonthName, Plus Space,
         Grp 3 Digits12, Star Space, Dash, Star Space, Grp 4 Digits12, Opt (Chr (CHR '','')),
         Plus Space, Grp 5 Digits4, WordB]"

definition releaseDateRangePattern2 :: rx where
  "releaseDateRangePattern2 =
     Cat [WordB, Grp 1 (Words [''released'', ''published'', ''premiered'', ''launched'']),
         Lazy AnyChar, WordB, Words [''from'', ''on''], Plus Space, Grp 2 Digits12, Star Space,
         Dash, Star Space, Grp 3 Digits12, Plus Space, Grp 4 MonthName, Plus Space,
         Grp 5 Digits4, WordB]"

definition releaseDatePattern :: rx where
  "releaseDatePattern =
     Cat [WordB, Grp 1 (Words [''released'', ''published'', ''premiered'', ''launched'']),
         Lazy AnyChar, WordB, Grp 2 (Words [''in'', ''on'']), Plus Space, Grp 3 MonthName,
         Plus Space, Grp 4 Digits12, Opt (Chr (CHR '','')), Plus Space, Grp 5 Digits4, WordB]"

definition pattern1 :: rx where
  "pattern1 =
     Cat [WordB, Grp 1 MonthName, Plus Space, Grp 2 Digits12, Opt (Chr (CHR '','')), Plus Space,
         Grp 3 Digits34, WordB]"

definition pattern2 :: rx where
  "pattern2 =
     Cat [WordB, Grp 1 Digits12, Plus Space, Grp 2 MonthName, Plus Space, Grp 3 Digits34, WordB]"

definition yearRangePattern :: rx where
  "yearRangePattern =
     Cat [WordB, Grp 1 Digits4, Star Space, Dash, Star Space, Grp 2 Digits4, WordB]"

definition yearContextPattern :: rx where
  "yearContextPattern =
     Cat [WordB, Grp 1 (Words [''began'', ''started'', ''commenced'', ''fought'', ''took place'',
             ''occurred'']), Lazy AnyChar, Grp 2 Digits4, WordB]"

text \<open>
  \<open>parseInt\<close> of a captured text: white space and a sign are skipped, then the longest
  run of digits is read, in base 16 after \<open>0x\<close>; \<open>NaN\<close> (here \<open>None\<close>) when no digit
  is there. Every group the source reads is a mandatory part of its pattern, so it took
  part in every match; \<open>groupText\<close> gives the empty text for any other group.
\<close>

definition groupText :: "(nat \<times> string) list \<Rightarrow> nat \<Rightarrow> string" where
  "groupText caps n = (case group caps n of Some s \<Rightarrow> s | None \<Rightarrow> [])"

definition hexDigitValue :: "char \<Rightarrow> int option" where
  "hexDigitValue c =
     (let n = (of_char c :: int) in
      if 48 \<le> n \<and> n \<le> 57 then Some (n - 48)
      else if 65 \<le> n \<and> n \<le> 70 then Some (n - 55)
      else if 97 \<le> n \<and> n \<le> 102 then Some (n - 87)
      else None)"

definition isHexDigit :: "char \<Rightarrow> bool" where
  "isHexDigit c = (hexDigitValue c \<noteq> None)"

definition hexValue :: "string \<Rightarrow> int" where
  "hexValue ds = foldl (\<lambda>n c. 16 * n + (case hexDigitValue c of Some v \<Rightarrow> v | None \<Rightarrow> 0)) 0 ds"

definition parseInt :: "string \<Rightarrow> int option" where
  "parseInt s =
     (let t = dropWhile isSpace s;
          sign = (case t of c # r \<Rightarrow> (if c = CHR ''-'' then - 1 else 1) | [] \<Rightarrow> (1::int));
          u = (case t of c # r \<Rightarrow> (if c = CHR ''-'' \<or> c = CHR ''+'' then r else t) | [] \<Rightarrow> t)
      in if take 2 u = ''0x'' \<or> take 2 u = ''0X'' then
           (let ds = takeWhile isHexDigit (drop 2 u) in
            if ds = [] then None else Some (sign * hexValue ds))
         else
           (let ds = takeWhile isDigit u in
            if ds = [] then None else Some (sign * keyNumber ds)))"

definition getMonthNumber :: "string \<Rightarrow> int" where
  "getMonthNumber monthName =
     (case map_of
        [(''january'', 0), (''february'', 1), (''march'', 2), (''april'', 3), (''may'', 4),
         (''june'', 5), (''july'', 6), (''august'', 7), (''september'', 8), (''october'', 9),
         (''november'', 10), (''december'', 11)] (toLowerCase monthName) of
        Some n \<Rightarrow> n
      | None \<Rightarrow> 0)"

definition isValidCompleteDate :: "int \<Rightarrow> int \<Rightarrow> int \<Rightarrow> bool" where
  "isValidCompleteDate yr mon dy =
     (if yr < 1 \<or> yr > 2100 then False
      else if mon < 0 \<or> mon > 11 then False
      else if dy < 1 \<or> dy > 31 then False
      else
        let testDate = newDate yr mon dy in
        if getMonth testDate \<noteq> mon \<or> getDate testDate \<noteq> dy then False
        else True)"

text \<open>
  The numbers read from a match, checked by \<open>isValidCompleteDate\<close>; a \<open>NaN\<close> among
  them fails the check, since the date built from it is invalid.
\<close>

definition checkedDate :: "int option \<Rightarrow> int \<Rightarrow> int option \<Rightarrow> (int \<times> int \<times> int) option" where
  "checkedDate yr mon dy =
     (case (yr, dy) of
        (Some y, Some d) \<Rightarrow> if \<not> isValidCompleteDate y mon d then None else Some (y, mon, d)
      | _ \<Rightarrow> None)"

definition biographicalEvent :: "string \<Rightarrow> string \<Rightarrow> string \<Rightarrow> int \<times> int \<times> int \<Rightarrow> HistoricalEvent" where
  "biographicalEvent kind personName text ymd =
     (case ymd of (y, m, d) \<Rightarrow>
        \<lparr>title = kind @ personName, date = newDate y m d, year = y, month = m, day = d,
         wikipediaUrl = Some [], description = Some text\<rparr>)"

text \<open>
  Both extraction functions are a chain of \<open>if (match) { ... return ...; }\<close> blocks.
  An attempt is one block: \<open>None\<close> when its pattern does not match and the next block
  runs, \<open>Some result\<close> when it returns \<open>result\<close> (which is \<open>null\<close>, here \<open>None\<close>,
  when the date it read is not valid).
\<close>

fun firstReturn :: "('a \<Rightarrow> 'b option option) list \<Rightarrow> 'a \<Rightarrow> 'b option" where
  "firstReturn [] x = None"
| "firstReturn (attempt # attempts) x =
     (case attempt x of Some result \<Rightarrow> result | None \<Rightarrow> firstReturn attempts x)"

definition birthAttempt1 :: "string \<Rightarrow> string \<Rightarrow> HistoricalEvent option option" where
  "birthAttempt1 personName text =
     map_option (\<lambda>birthMatch1.
         map_option (biographicalEvent ''Birth of '' personName text)
           (checkedDate (parseInt (groupText birthMatch1 3))
              (getMonthNumber (groupText birthMatch1 2))
              (parseInt (groupText birthMatch1 1))))
       (rx_match True birthPattern1 text)"

definition birthAttempt2 :: "string \<Rightarrow> string \<Rightarrow> HistoricalEvent option option" where
  "birthAttempt2 personName text =
     map_option (\<lambda>birthMatch2.
         map_option (biographicalEvent ''Birth of '' personName text)
           (checkedDate (parseInt (groupText birthMatch2 3))
              (getMonthNumber (groupText birthMatch2 1))
              (parseInt (groupText birthMatch2 2))))
       (rx_match True birthPattern2 text)"

definition deathAttempt1 :: "string \<Rightarrow> string \<Rightarrow> HistoricalEvent option option" where
  "deathAttempt1 personName text =
     map_option (\<lambda>deathMatch1.
         map_option (biographicalEvent ''Death of '' personName text)
           (checkedDate (parseInt (groupText deathMatch1 3))
              (getMonthNumber (groupText deathMatch1 2))
              (parseInt (groupText deathMatch1 1))))
       (rx_match True deathPattern1 text)"

definition deathAttempt2 :: "string \<Rightarrow> string \<Rightarrow> HistoricalEvent option option" where
  "deathAttempt2 personName text =
     map_option (\<lambda>deathMatch2.
         map_option (biographicalEvent ''Death of '' personName text)
           (checkedDate (parseInt (groupText deathMatch2 3))
              (getMonthNumber (groupText deathMatch2 1))
              (parseInt (groupText deathMatch2 2))))
       (rx_match True deathPattern2 text)"

definition extractBiographicalDate :: "string \<Rightarrow> string \<Rightarrow> HistoricalEvent option" where
  "extractBiographicalDate text personName =
     (if text = [] then None
      else if \<not> isBiographical (toLowerCase text) then None
      else firstReturn
             [birthAttempt1 personName, birthAttempt2 personName,
              deathAttempt1 personName, deathAttempt2 personName] text)"

text \<open>\<open>cat.includes(excludeCat)\<close>: the text contains the other as a substring.\<close>

fun includes_str :: "string \<Rightarrow> string \<Rightarrow> bool" where
  "includes_str [] pat = (pat = [])"
| "includes_str (c # cs) pat = (take (length pat) (c # cs) = pat \<or> includes_str cs pat)"

definition isHistoricalEvent :: "string \<Rightarrow> string list \<Rightarrow> bool" where
  "isHistoricalEvent text categories =
     (if text = [] then False
      else
        let lowerText = toLowerCase text in
        if list_ex (\<lambda>pattern. rx_test True pattern lowerText) timePeriodsAndOverviews then False
        else if list_ex (\<lambda>pattern. rx_test True pattern lowerText) excludePatterns then False
        else if length categories > 0 \<and>
                list_ex (\<lambda>excludeCat.
                    list_ex (\<lambda>cat. includes_str cat excludeCat) (map toLowerCase categories))
                  [''countries'', ''cities'']
        then False
        else list_ex (\<lambda>pattern. rx_test True pattern lowerText) eventPatterns)"

record DateInfo =
  info_date :: JSDate
  info_year :: int
  info_month :: int
  info_day :: int
  titlePrefix :: "string option"

definition dateInfo :: "string option \<Rightarrow> int \<times> int \<times> int \<Rightarrow> DateInfo" where
  "dateInfo prefix ymd =
     (case ymd of (y, m, d) \<Rightarrow>
        \<lparr>info_date = newDate y m d, info_year = y, info_month = m, info_day = d,
         titlePrefix = prefix\<rparr>)"

definition yearInRange :: "int option \<Rightarrow> int option" where
  "yearInRange yr = (case yr of Some y \<Rightarrow> if y \<ge> 1 \<and> y \<le> 2100 then Some y else None | None \<Rightarrow> None)"

definition monthRangeAttempt :: "string \<Rightarrow> DateInfo option option" where
  "monthRangeAttempt text =
     map_option (\<lambda>monthRangeMatch.
         map_option (dateInfo (Some ''Start of''))
           (checkedDate (parseInt (groupText monthRangeMatch 4))
              (getMonthNumber (groupText monthRangeMatch 1))
              (parseInt (groupText monthRangeMatch 2))))
       (rx_match True monthRangePattern text)"

definition dayRangeAttempt :: "string \<Rightarrow> DateInfo option option" where
  "dayRangeAttempt text =
     map_option (\<lambda>dayRangeMatch.
         map_option (dateInfo (Some ''Start of''))
           (checkedDate (parseInt (groupText dayRangeMatch 4))
              (getMonthNumber (groupText dayRangeMatch 3))
              (parseInt (groupText dayRangeMatch 1))))
       (rx_match True dayRangePattern text)"

definition crossMonthRangeAttempt :: "string \<Rightarrow> DateInfo option option" where
  "crossMonthRangeAttempt text =
     map_option (\<lambda>crossMonthMatch.
         map_option (dateInfo (Some ''Start of''))
           (checkedDate (parseInt (groupText crossMonthMatch 5))
              (getMonthNumber (groupText crossMonthMatch 1))
              (parseInt (groupText crossMonthMatch 2))))
       (rx_match True crossMonthRangePattern text)"

definition releaseDateRangeAttempt1 :: "string \<Rightarrow> DateInfo option option" where
  "releaseDateRangeAttempt1 text =
     map_option (\<lambda>releaseRangeMatch1.
         map_option (dateInfo (Some ''Start of''))
           (checkedDate (parseInt (groupText releaseRangeMatch1 5))
              (getMonthNumber (groupText releaseRangeMatch1 2))
              (parseInt (groupText releaseRangeMatch1 3))))
       (rx_match True releaseDateRangePattern1 text)"

definition releaseDateRangeAttempt2 :: "string \<Rightarrow> DateInfo option option" where
  "releaseDateRangeAttempt2 text =
     map_option (\<lambda>releaseRangeMatch2.
         map_option (dateInfo (Some ''Start of''))
           (checkedDate (parseInt (groupText releaseRangeMatch2 5))
              (getMonthNumber (groupText releaseRangeMatch2 4))
              (parseInt (groupText releaseRangeMatch2 2))))
       (rx_match True releaseDateRangePattern2 text)"

definition releaseDateAttempt :: "string \<Rightarrow> DateInfo option option" where
  "releaseDateAttempt text =
     map_option (\<lambda>releaseMatch.
         map_option (dateInfo None)
           (checkedDate (parseInt (groupText releaseMatch 5))
              (getMonthNumber (groupText releaseMatch 3))
              (parseInt (groupText releaseMatch 4))))
       (rx_match True releaseDatePattern text)"

definition patternAttempt1 :: "string \<Rightarrow> DateInfo option option" where
  "patternAttempt1 text =
     map_option (\<lambda>match1.
         map_option (dateInfo None)
           (checkedDate (parseInt (groupText match1 3))
              (getMonthNumber (groupText match1 1))
              (parseInt (groupText match1 2))))
       (rx_match True pattern1 text)"

definition patternAttempt2 :: "string \<Rightarrow> DateInfo option option" where
  "patternAttempt2 text =
     map_option (\<lambda>match2.
         map_option (dateInfo None)
           (checkedDate (parseInt (groupText match2 3))
              (getMonthNumber (groupText match2 2))
              (parseInt (groupText match2 1))))
       (rx_match True pattern2 text)"

text \<open>
  The two fallbacks return only when the year they read lies in \<open>1 .. 2100\<close>; otherwise
  the next block runs.
\<close>

definition yearRangeAttempt :: "string \<Rightarrow> DateInfo option option" where
  "yearRangeAttempt text =
     (case rx_match False yearRangePattern text of
        Some yearRangeMatch \<Rightarrow>
          map_option (\<lambda>startYear. Some (dateInfo (Some ''Start of'') (startYear, 0, 1)))
            (yearInRange (parseInt (groupText yearRangeMatch 1)))
      | None \<Rightarrow> None)"

definition yearContextAttempt :: "string \<Rightarrow> DateInfo option option" where
  "yearContextAttempt text =
     (case rx_match True yearContextPattern text of
        Some yearContextMatch \<Rightarrow>
          map_option (\<lambda>yr. Some (dateInfo None (yr, 0, 1)))
            (yearInRange (parseInt (groupText yearContextMatch 2)))
      | None \<Rightarrow> None)"

definition extractDateFromText :: "string \<Rightarrow> DateInfo option" where
  "extractDateFromText text =
     (if text = [] then None
      else firstReturn
             [monthRangeAttempt, dayRangeAttempt, crossMonthRangeAttempt,
              releaseDateRangeAttempt1, releaseDateRangeAttempt2, releaseDateAttempt,
              patternAttempt1, patternAttempt2, yearRangeAttempt, yearContextAttempt] text)"

text \<open>
  What Wikipedia answers, and what the browser holds. A search answers with a list of
  results, or fails (\<open>None\<close>); a page query fails, or answers with no page (none, or one
  marked \<open>missing\<close>), or with a page. An absent \<open>extract\<close> is the empty text, absent
  \<open>categories\<close> the empty list. The browser's state is the content of \<open>localStorage\<close>
  under the cache's key and the list of requests sent so far.
\<close>

record WikipediaSearchResult =
  result_title :: string
  pageid :: int
  snippet :: string

record WikiPage =
  page_title :: string
  page_extract :: string
  categories :: "string list"
  fullurl :: "string option"

datatype PageAnswer = RequestFailed | NoPage | Page WikiPage

record Wikipedia =
  searchAnswer :: "string \<Rightarrow> nat \<Rightarrow> WikipediaSearchResult list option"
  pageAnswer :: "string \<Rightarrow> PageAnswer"

datatype Request = SearchRequest string nat | PageRequest string

record Browser =
  localStorage :: StoredItem
  requests :: "Request list"

definition searchWikipediaEvents ::
    "Wikipedia \<Rightarrow> Browser \<Rightarrow> string \<Rightarrow> nat \<Rightarrow> WikipediaSearchResult list \<times> Browser" where
  "searchWikipediaEvents w b query limit =
     (case searchAnswer w query limit of Some found \<Rightarrow> found | None \<Rightarrow> [],
      b\<lparr>requests := requests b @ [SearchRequest query limit]\<rparr>)"

definition getEventDetails :: "Wikipedia \<Rightarrow> Browser \<Rightarrow> string \<Rightarrow> HistoricalEvent option \<times> Browser" where
  "getEventDetails w b pageTitle =
     (if isTimePeriodOrMetaPage pageTitle then (None, b)
      else
        let b' = b\<lparr>requests := requests b @ [PageRequest pageTitle]\<rparr> in
        case pageAnswer w pageTitle of
          RequestFailed \<Rightarrow> (None, b')
        | NoPage \<Rightarrow> (None, b')
        | Page page \<Rightarrow>
            (case extractBiographicalDate (page_extract page) (page_title page) of
               Some biographicalInfo \<Rightarrow> (Some biographicalInfo, b')
             | None \<Rightarrow>
                 if \<not> isHistoricalEvent (page_extract page) (categories page) then (None, b')
                 else
                   case extractDateFromText (page_extract page) of
                     None \<Rightarrow> (None, b')
                   | Some info \<Rightarrow>
                       (Some \<lparr>title = (case titlePrefix info of
                                          Some prefix \<Rightarrow> prefix @ '' '' @ page_title page
                                        | None \<Rightarrow> page_title page),
                              date = info_date info, year = info_year info,
                              month = info_month info, day = info_day info,
                              wikipediaUrl = fullurl page,
                              description = Some (page_extract page)\<rparr>, b')))"

fun validateEvent_loop ::
    "Wikipedia \<Rightarrow> Browser \<Rightarrow> WikipediaSearchResult list \<Rightarrow> HistoricalEvent option \<times> Browser" where
  "validateEvent_loop w b [] = (None, b)"
| "validateEvent_loop w b (result # others) =
     (if isTimePeriodOrMetaPage (result_title result) then validateEvent_loop w b others
      else
        case getEventDetails w b (result_title result) of
          (Some eventDetails, b') \<Rightarrow> (Some eventDetails, b')
        | (None, b') \<Rightarrow> validateEvent_loop w b' others)"

definition validateEvent :: "Wikipedia \<Rightarrow> Browser \<Rightarrow> string \<Rightarrow> HistoricalEvent option \<times> Browser" where
  "validateEvent w b eventName =
     (case searchWikipediaEvents w b eventName 10 of
        (found, b') \<Rightarrow>
          if length found = 0 then (None, b') else validateEvent_loop w b' found)"

section \<open>Example values\<close>

definition hastings :: HistoricalEvent where
  "hastings =
     \<lparr>title = ''Battle of Hastings'', date = newDate 1066 9 14, year = 1066, month = 9,
      day = 14, wikipediaUrl = Some ''https://en.wikipedia.org/wiki/Battle_of_Hastings'',
      description = None\<rparr>"

definition lincoln :: HistoricalEvent where
  "lincoln =
     \<lparr>title = ''Battle of Lincoln'', date = newDate 1141 1 2, year = 1141, month = 1,
      day = 2, wikipediaUrl = None, description = None\<rparr>"

definition magna_carta :: HistoricalEvent where
  "magna_carta =
     \<lparr>title = ''Magna Carta'', date = newDate 1215 5 15, year = 1215, month = 5,
      day = 15, wikipediaUrl = None, description = None\<rparr>"

definition alice :: Player where
  "alice = \<lparr>player_id = ''p-alice'', name = ''Alice'', isAlive = True, isHost = Some True\<rparr>"

definition bob :: Player where
  "bob = \<lparr>player_id = ''p-bob'', name = ''Bob'', isAlive = True, isHost = None\<rparr>"

definition system_entry :: "HistoricalEvent \<Rightarrow> int \<Rightarrow> GameEvent" where
  "system_entry ev now =
     \<lparr>playerId = ''system'', playerName = ''Game'', event = ev, wasChecked = True,
      wasCorrect = Some True, timestamp = now\<rparr>"

definition pending_entry :: "Player \<Rightarrow> HistoricalEvent \<Rightarrow> int \<Rightarrow> GameEvent" where
  "pending_entry p ev now =
     \<lparr>playerId = player_id p, playerName = name p, event = ev, wasChecked = False,
      wasCorrect = None, timestamp = now\<rparr>"

text \<open>Alice's lobby after Bob joined, as \<open>createGame\<close> and \<open>joinGame\<close> leave it.\<close>

definition lobby_state :: GameState where
  "lobby_state =
     \<lparr>gameId = ''ABC123'', phase = lobby, players = [alice, bob], currentPlayerIndex = 0,
      eventChain = [], settings = DEFAULT_SETTINGS, currentBuffer = 25,
      lastCheckedEventIndex = - 1\<rparr>"

text \<open>The game started on the Battle of Lincoln (1141).\<close>

definition started_state :: GameState where
  "started_state =
     lobby_state\<lparr>phase := playing, eventChain := [system_entry lincoln 100],
       lastCheckedEventIndex := 0, currentBuffer := 25\<rparr>"

text \<open>Alice has submitted the Battle of Hastings (1066), Bob has not challenged.\<close>

definition one_pending_state :: GameState where
  "one_pending_state =
     started_state\<lparr>eventChain := [system_entry lincoln 100, pending_entry alice hastings 200],
       currentPlayerIndex := 1, currentBuffer := 25\<rparr>"

text \<open>Bob has then submitted Magna Carta (1215) instead of challenging.\<close>

definition two_pending_state :: GameState where
  "two_pending_state =
     one_pending_state\<lparr>eventChain := [system_entry lincoln 100, pending_entry alice hastings 200,
         pending_entry bob magna_carta 300],
       currentPlayerIndex := 0, currentBuffer := 25\<rparr>"

text \<open>A rule set with a negative tolerance, as \<open>updateSettings\<close> accepts it.\<close>

definition negative_rules :: "BufferRule list" where
  "negative_rules = [\<lparr>fromYear = 0, toYear = 9999, bufferYears = - 1\<rparr>]"

definition negative_update :: PartialSettings where
  "negative_update =
     \<lparr>new_startingCentury = None, new_bufferRules = Some negative_rules,
      new_maxPlayers = None, new_requireDayPrecision = None\<rparr>"

definition negative_rules_state :: GameState where
  "negative_rules_state =
     started_state\<lparr>settings := DEFAULT_SETTINGS\<lparr>bufferRules := negative_rules\<rparr>,
       currentBuffer := - 1\<rparr>"

text \<open>Bob has challenged Alice's Battle of Hastings instead: Alice is out, the game is over.\<close>

definition finished_state :: GameState where
  "finished_state =
     one_pending_state\<lparr>players := [alice\<lparr>isAlive := False\<rparr>, bob],
       eventChain := [system_entry lincoln 100,
         (pending_entry alice hastings 200)\<lparr>wasChecked := True, wasCorrect := Some False\<rparr>],
       lastCheckedEventIndex := 0, phase := results, currentBuffer := 25\<rparr>"

text \<open>Magna Carta submitted to the finished game.\<close>

definition submitted_after_finish_state :: GameState where
  "submitted_after_finish_state =
     finished_state\<lparr>eventChain := eventChain finished_state @ [pending_entry bob magna_carta 400],
       currentPlayerIndex := 1, currentBuffer := 25, lastCheckedEventIndex := 0\<rparr>"

definition hastings_capitals :: HistoricalEvent where
  "hastings_capitals = hastings\<lparr>title := ''BATTLE OF HASTINGS''\<rparr>"

definition fetch_lincoln :: "int \<Rightarrow> HistoricalEvent option" where
  "fetch_lincoln century = Some lincoln"

definition accepted :: SubmitResult where
  "accepted = \<lparr>submit_success = True, message = ''Event submitted!''\<rparr>"

definition rejected_duplicate :: SubmitResult where
  "rejected_duplicate =
     \<lparr>submit_success = False,
      message = ''This event has already been submitted! Try a different one.''\<rparr>"

text \<open>A page about a person that gives no date of birth or death, and a Wikipedia that has it.\<close>

definition william_page :: WikiPage where
  "william_page =
     \<lparr>page_title = ''William I'',
      page_extract = ''William I was a king of England. He won the Battle of Hastings on 14 October 1066.'',
      categories = [],
      fullurl = Some ''https://en.wikipedia.org/wiki/William_I''\<rparr>"

definition william_event :: HistoricalEvent where
  "william_event =
     \<lparr>title = ''William I'', date = newDate 1066 9 14, year = 1066, month = 9, day = 14,
      wikipediaUrl = Some ''https://en.wikipedia.org/wiki/William_I'',
      description = Some (page_extract william_page)\<rparr>"

definition william_world :: Wikipedia where
  "william_world =
     \<lparr>searchAnswer = (\<lambda>query limit.
        Some [\<lparr>result_title = ''11th century'', pageid = 1, snippet = []\<rparr>,
              \<lparr>result_title = ''William I'', pageid = 2, snippet = []\<rparr>]),
      pageAnswer = (\<lambda>t. if t = ''William I'' then Page william_page else NoPage)\<rparr>"

text \<open>A browser with nothing cached and nothing requested, and the requests one lookup sends.\<close>

definition fresh_browser :: Browser where
  "fresh_browser = \<lparr>localStorage = Absent, requests = []\<rparr>"

definition william_requests :: "Request list" where
  "william_requests = [SearchRequest ''william i'' 10, PageRequest ''William I'']"

section \<open>Properties of the buffer policy\<close>

lemma calculateBuffer_find:
  "calculateBuffer y rules =
     (case find (\<lambda>r. fromYear r \<le> y \<and> y \<le> toYear r) rules of
        Some r \<Rightarrow> bufferYears r | None \<Rightarrow> 1)"
  by (induction rules) auto

lemma default_rules_cover:
  assumes "0 \<le> y" "y \<le> 9999"
  shows "length (filter (\<lambda>r. fromYear r \<le> y \<and> y \<le> toYear r) DEFAULT_BUFFER_RULES) = 1"
proof -
  consider "y \<le> 999" | "1000 \<le> y \<and> y \<le> 1499" | "1500 \<le> y \<and> y \<le> 1799"
    | "1800 \<le> y \<and> y \<le> 1899" | "1900 \<le> y \<and> y \<le> 1949" | "1950 \<le> y \<and> y \<le> 1999"
    | "2000 \<le> y" by linarith
  then show ?thesis
    using assms by cases (simp_all add: DEFAULT_BUFFER_RULES_def)
qed

lemma default_rules_find:
  assumes "0 \<le> y" "y \<le> 9999"
  shows "find (\<lambda>r. fromYear r \<le> y \<and> y \<le> toYear r) DEFAULT_BUFFER_RULES \<noteq> None"
  using assms by (auto simp: DEFAULT_BUFFER_RULES_def)

lemma calculateBuffer_nonneg:
  "\<forall>r \<in> set rules. 0 \<le> bufferYears r \<Longrightarrow> 0 \<le> calculateBuffer y rules"
  by (induction rules) auto

lemma default_rules_nonneg: "\<forall>r \<in> set DEFAULT_BUFFER_RULES. 0 \<le> bufferYears r"
  by (simp add: DEFAULT_BUFFER_RULES_def)

text \<open>
  C8. For every year and every ordered rule list, \<open>calculateBuffer\<close> returns the
  \<open>bufferYears\<close> of the first rule whose inclusive range \<open>[fromYear, toYear]\<close> contains
  the year, and \<open>1\<close> if no rule does. Under \<open>DEFAULT_BUFFER_RULES\<close> every year in
  \<open>0 .. 9999\<close> lies in exactly one rule, so the default branch is not taken there.
\<close>

theorem calculateBuffer_first_match:
  "calculateBuffer y rules =
     (case find (\<lambda>r. fromYear r \<le> y \<and> y \<le> toYear r) rules of
        Some r \<Rightarrow> bufferYears r | None \<Rightarrow> 1)
   \<and> (0 \<le> y \<and> y \<le> 9999 \<longrightarrow>
        length (filter (\<lambda>r. fromYear r \<le> y \<and> y \<le> toYear r) DEFAULT_BUFFER_RULES) = 1
        \<and> find (\<lambda>r. fromYear r \<le> y \<and> y \<le> toYear r) DEFAULT_BUFFER_RULES \<noteq> None)"
  using calculateBuffer_find default_rules_cover default_rules_find by blast

theorem calculateBuffer_first_match_witness:
  "calculateBuffer 1141 DEFAULT_BUFFER_RULES = 25
   \<and> length (filter (\<lambda>r. fromYear r \<le> 1141 \<and> 1141 \<le> toYear r) DEFAULT_BUFFER_RULES) = 1
   \<and> find (\<lambda>r. fromYear r \<le> 1141 \<and> 1141 \<le> toYear r) DEFAULT_BUFFER_RULES
       = Some \<lparr>fromYear = 1000, toYear = 1499, bufferYears = 25\<rparr>
   \<and> calculateBuffer 12000 DEFAULT_BUFFER_RULES = 1"
  using calculateBuffer_first_match [of 1141 DEFAULT_BUFFER_RULES]
  by (simp add: DEFAULT_BUFFER_RULES_def)

section \<open>Properties of the buffer check and the challenge\<close>

text \<open>
  C1 (as stated). The claim ends with: the check is true whenever the candidate's year
  equals the anchor's, for every tolerance. With tolerance \<open>-1\<close> the year difference
  \<open>0\<close> exceeds the tolerance and the check is false.
\<close>

theorem isEventWithinBuffer_equal_years_counterexample:
  "year lincoln = year lincoln \<and> \<not> isValid (isEventWithinBuffer lincoln lincoln (- 1))"
  by (simp add: isEventWithinBuffer_def)

text \<open>
  C1 (amended). For every anchor event \<open>A\<close>, candidate \<open>C\<close> and tolerance \<open>t\<close>, the check is
  false if and only if \<open>C.year - A.year < 0\<close> or \<open>C.year - A.year > t\<close>; it is false
  whenever \<open>C.year < A.year\<close>, whatever \<open>t\<close> is, and it is true when the years are equal
  and \<open>t\<close> is not negative.
\<close>

theorem isEventWithinBuffer_invalid_iff:
  "((\<not> isValid (isEventWithinBuffer A C t)) = (year C - year A < 0 \<or> year C - year A > t))
   \<and> (year C < year A \<longrightarrow> \<not> isValid (isEventWithinBuffer A C t))
   \<and> (0 \<le> t \<and> year C = year A \<longrightarrow> isValid (isEventWithinBuffer A C t))
   \<and> yearDifference (isEventWithinBuffer A C t) = year C - year A"
  by (auto simp: isEventWithinBuffer_def Let_def)

theorem isEventWithinBuffer_invalid_iff_witness:
  "\<not> isValid (isEventWithinBuffer lincoln hastings 1000000)
   \<and> isValid (isEventWithinBuffer lincoln lincoln 0)
   \<and> \<not> isValid (isEventWithinBuffer lincoln magna_carta 25)
   \<and> yearDifference (isEventWithinBuffer lincoln magna_carta 25) = 74"
  using isEventWithinBuffer_invalid_iff [of lincoln hastings 1000000]
    isEventWithinBuffer_invalid_iff [of lincoln lincoln 0]
    isEventWithinBuffer_invalid_iff [of lincoln magna_carta 25]
  by (simp add: lincoln_def hastings_def magna_carta_def)

text \<open>
  C2. For every game state with a non-empty chain and an established anchor,
  \<open>processBullshitCall\<close> names one player to eliminate: when the last event's year
  difference to the anchor is non-negative and within the anchor's tolerance, it is the
  challenger and \<open>wasEventCorrect\<close> is true; otherwise it is the player who submitted
  the last event and \<open>wasEventCorrect\<close> is false.
\<close>

theorem processBullshitCall_outcome:
  assumes "eventChain g \<noteq> []" and "getAnchorEvent g = Some a"
  shows "let t = calculateBuffer (year (event a)) (bufferRules (settings g));
             d = year (event (last (eventChain g))) - year (event a);
             r = processBullshitCall g caller
         in if 0 \<le> d \<and> d \<le> t
            then eliminatedPlayerId r = caller \<and> wasEventCorrect r
            else eliminatedPlayerId r = playerId (last (eventChain g)) \<and> \<not> wasEventCorrect r"
  using assms by (auto simp: processBullshitCall_def isEventWithinBuffer_def Let_def)

lemma one_pending_anchor: "getAnchorEvent one_pending_state = Some (system_entry lincoln 100)"
  by (simp add: getAnchorEvent_def js_index_def one_pending_state_def started_state_def
      lobby_state_def)

theorem processBullshitCall_outcome_witness:
  "eventChain one_pending_state \<noteq> []
   \<and> getAnchorEvent one_pending_state = Some (system_entry lincoln 100)
   \<and> eliminatedPlayerId (processBullshitCall one_pending_state ''p-bob'') = ''p-alice''
   \<and> \<not> wasEventCorrect (processBullshitCall one_pending_state ''p-bob'')"
proof -
  have c: "eventChain one_pending_state \<noteq> []"
    by (simp add: one_pending_state_def)
  show ?thesis
    using processBullshitCall_outcome [OF c one_pending_anchor, of "''p-bob''"] c one_pending_anchor
    by (simp add: Let_def one_pending_state_def started_state_def lobby_state_def
        system_entry_def pending_entry_def lincoln_def hastings_def alice_def
        DEFAULT_SETTINGS_def DEFAULT_BUFFER_RULES_def)
qed

lemma eliminate_one:
  assumes "distinct (map player_id ps)" and "p \<in> set ps" and "isAlive p" and "player_id p = i"
  shows "Suc (length (filter isAlive
            (map (\<lambda>q. if player_id q = i then q\<lparr>isAlive := False\<rparr> else q) ps))) =
         length (filter isAlive ps)"
  using assms
proof (induction ps)
  case Nil
  then show ?case by simp
next
  case (Cons a ps)
  show ?case
  proof (cases "a = p")
    case True
    have "\<forall>q \<in> set ps. player_id q \<noteq> i"
      using Cons.prems(1,4) True by (auto simp: image_iff)
    then have "map (\<lambda>q. if player_id q = i then q\<lparr>isAlive := False\<rparr> else q) ps = ps"
      by (simp add: map_idI)
    then show ?thesis using True Cons.prems(3,4) by simp
  next
    case False
    then have "p \<in> set ps" using Cons.prems(2) by simp
    moreover have "player_id a \<noteq> i"
      using Cons.prems(1,4) \<open>p \<in> set ps\<close> by (auto simp: image_iff)
    ultimately show ?thesis using Cons by simp
  qed
qed

text \<open>
  \<open>callBullshit\<close> marks as eliminated the players whose \<open>id\<close> is the one named; when the
  ids are distinct and the named player is alive, that is one player.
\<close>

lemma callBullshit_eliminates_one:
  assumes "callBullshit (Some g) callerId = Inr (Some g')"
    and "distinct (map player_id (players g))"
    and "p \<in> set (players g)" and "isAlive p"
    and "player_id p = eliminatedPlayerId (processBullshitCall g callerId)"
  shows "Suc (length (filter isAlive (players g'))) = length (filter isAlive (players g))"
proof -
  have "players g' =
          map (\<lambda>q. if player_id q = eliminatedPlayerId (processBullshitCall g callerId)
                    then q\<lparr>isAlive := False\<rparr> else q) (players g)"
    using assms(1) by (auto simp: callBullshit_def Let_def split: option.splits)
  then show ?thesis
    using eliminate_one [OF assms(2,3,4,5)] by simp
qed

text \<open>
  C7. For every chain of length \<open>n \<ge> 2\<close> whose last entry is pending, \<open>callBullshit\<close>
  returns; when the challenge resolves as invalid the anchor index becomes \<open>n - 2\<close>
  (which is \<open>max 0 (n - 2)\<close>), when it resolves as valid it becomes \<open>n - 1\<close>; the chain
  keeps its length and its events, the disputed entry being marked as checked.
\<close>

theorem callBullshit_anchor_index:
  assumes "length (eventChain g) = n" and "2 \<le> n" and "\<not> wasChecked (last (eventChain g))"
  shows "\<exists>g'. callBullshit (Some g) callerId = Inr (Some g') \<and>
           length (eventChain g') = n \<and>
           map event (eventChain g') = map event (eventChain g) \<and>
           wasChecked (last (eventChain g')) \<and>
           wasCorrect (last (eventChain g')) = Some (wasEventCorrect (processBullshitCall g callerId)) \<and>
           lastCheckedEventIndex g' =
             (if wasEventCorrect (processBullshitCall g callerId) then int n - 1 else int n - 2) \<and>
           int n - 2 = max 0 (int n - 2)"
  using assms(1,2)
  by (auto simp: callBullshit_def Let_def js_index_def last_conv_nth map_update nth_list_update
           intro!: nth_equalityI)

theorem callBullshit_anchor_index_witness:
  "length (eventChain one_pending_state) = 2
   \<and> \<not> wasChecked (last (eventChain one_pending_state))
   \<and> \<not> wasEventCorrect (processBullshitCall one_pending_state ''p-bob'')
   \<and> (\<exists>g'. callBullshit (Some one_pending_state) ''p-bob'' = Inr (Some g') \<and>
           length (eventChain g') = 2 \<and> lastCheckedEventIndex g' = 0)"
proof -
  have l: "length (eventChain one_pending_state) = 2"
    by (simp add: one_pending_state_def)
  have p: "\<not> wasChecked (last (eventChain one_pending_state))"
    by (simp add: one_pending_state_def pending_entry_def)
  have w: "\<not> wasEventCorrect (processBullshitCall one_pending_state ''p-bob'')"
    by (simp add: processBullshitCall_def one_pending_anchor isEventWithinBuffer_def Let_def)
       (simp add: one_pending_state_def started_state_def lobby_state_def
        system_entry_def pending_entry_def lincoln_def hastings_def
        DEFAULT_SETTINGS_def DEFAULT_BUFFER_RULES_def)
  from callBullshit_anchor_index [OF l _ p, of "''p-bob''"] w l p
  show ?thesis by auto
qed

lemma run_negative_rules:
  "startGame (updateSettings (Some lobby_state) negative_update) None fetch_lincoln 100 =
     Some negative_rules_state"
  by (simp add: startGame_def updateSettings_def negative_update_def lobby_state_def
      negative_rules_state_def started_state_def Let_def system_entry_def DEFAULT_SETTINGS_def
      negative_rules_def lincoln_def fetch_lincoln_def)

text \<open>
  C9 (as stated). With a rule set whose tolerance for the anchor's year is negative, a
  challenge against the anchor itself finds the year difference \<open>0\<close> beyond the
  tolerance: the event is ruled incorrect and its submitter is named, not the challenger.
\<close>

theorem challenge_anchor_itself_counterexample:
  "startGame (updateSettings (Some lobby_state) negative_update) None fetch_lincoln 100 =
     Some negative_rules_state
   \<and> eventChain negative_rules_state \<noteq> []
   \<and> lastCheckedEventIndex negative_rules_state = int (length (eventChain negative_rules_state)) - 1
   \<and> \<not> wasEventCorrect (processBullshitCall negative_rules_state ''p-bob'')
   \<and> eliminatedPlayerId (processBullshitCall negative_rules_state ''p-bob'') = ''system''"
  using run_negative_rules
  by (simp add: processBullshitCall_def getAnchorEvent_def js_index_def isEventWithinBuffer_def
      negative_rules_state_def started_state_def lobby_state_def negative_rules_def
      system_entry_def lincoln_def DEFAULT_SETTINGS_def)

text \<open>
  C9 (amended). For every game state whose last chain entry is the current anchor
  (\<open>lastCheckedEventIndex\<close> is the chain's length minus one) and whose tolerance at that
  entry's year is not negative, a challenge compares the event with itself: the year
  difference is \<open>0\<close>, the outcome is "event correct" and the challenger is the player
  named for elimination.
\<close>

theorem challenge_anchor_itself:
  assumes "eventChain g \<noteq> []"
    and "lastCheckedEventIndex g = int (length (eventChain g)) - 1"
    and "0 \<le> calculateBuffer (year (event (last (eventChain g)))) (bufferRules (settings g))"
  shows "getAnchorEvent g = Some (last (eventChain g)) \<and>
         wasEventCorrect (processBullshitCall g caller) \<and>
         eliminatedPlayerId (processBullshitCall g caller) = caller \<and>
         details (processBullshitCall g caller) =
           EventWasCorrect 0
             (calculateBuffer (year (event (last (eventChain g)))) (bufferRules (settings g)))"
proof -
  have n: "nat (int (length (eventChain g)) - 1) = length (eventChain g) - 1"
    by simp
  have a: "getAnchorEvent g = Some (last (eventChain g))"
    using assms(1,2) by (simp add: getAnchorEvent_def js_index_def last_conv_nth n)
  show ?thesis using assms(1,3) a
    by (simp add: processBullshitCall_def isEventWithinBuffer_def Let_def)
qed

theorem challenge_anchor_itself_witness:
  "eventChain started_state \<noteq> []
   \<and> lastCheckedEventIndex started_state = int (length (eventChain started_state)) - 1
   \<and> wasEventCorrect (processBullshitCall started_state ''p-bob'')
   \<and> eliminatedPlayerId (processBullshitCall started_state ''p-bob'') = ''p-bob''"
proof -
  have c: "eventChain started_state \<noteq> []"
    by (simp add: started_state_def)
  have i: "lastCheckedEventIndex started_state = int (length (eventChain started_state)) - 1"
    by (simp add: started_state_def)
  have b: "0 \<le> calculateBuffer (year (event (last (eventChain started_state))))
                 (bufferRules (settings started_state))"
    by (rule calculateBuffer_nonneg)
       (simp add: started_state_def lobby_state_def DEFAULT_SETTINGS_def default_rules_nonneg)
  from challenge_anchor_itself [OF c i b, of "''p-bob''"] c i
  show ?thesis by simp
qed

section \<open>Properties of the game context\<close>

lemma getNextPlayerIndex_loop_returns:
  "i < length ps \<Longrightarrow> \<exists>j. getNextPlayerIndex_loop ps i a = Inr j \<and> j < length ps"
proof (induction ps i a rule: getNextPlayerIndex_loop.induct)
  case (1 ps nextIndex attempts)
  have p: "js_index ps (int nextIndex) = Some (ps ! nextIndex)"
    using "1.prems" by (simp add: js_index_def)
  show ?case
  proof (cases "\<not> isAlive (ps ! nextIndex) \<and> attempts < length ps")
    case True
    have "0 < length ps" using "1.prems" by (cases ps) auto
    then have "(nextIndex + 1) mod length ps < length ps"
      by (rule mod_less_divisor)
    from "1.IH" [OF p _ this] True p show ?thesis
      by (subst getNextPlayerIndex_loop.simps) simp
  next
    case False
    then show ?thesis using p "1.prems"
      by (subst getNextPlayerIndex_loop.simps) auto
  qed
qed

lemma getNextPlayerIndex_returns:
  "players g \<noteq> [] \<Longrightarrow> \<exists>j. getNextPlayerIndex g = Inr j \<and> j < length (players g)"
  unfolding getNextPlayerIndex_def
  using getNextPlayerIndex_loop_returns
    [of "(currentPlayerIndex g + 1) mod length (players g)" "players g" 0]
  by simp

lemma submitEvent_duplicate:
  "isDuplicate g ev \<Longrightarrow> submitEvent (Some g) ev now = Inr (Some g, rejected_duplicate)"
  by (simp add: submitEvent_def rejected_duplicate_def)

lemma submitEvent_accepts:
  assumes "\<not> isDuplicate g ev" and "currentPlayerIndex g < length (players g)"
  shows "\<exists>g'. submitEvent (Some g) ev now = Inr (Some g', accepted) \<and>
          eventChain g' = eventChain g @
            [\<lparr>playerId = player_id (players g ! currentPlayerIndex g),
              playerName = name (players g ! currentPlayerIndex g),
              event = ev, wasChecked = False, wasCorrect = None, timestamp = now\<rparr>] \<and>
          phase g' = phase g \<and> players g' = players g \<and> settings g' = settings g"
proof -
  have ne: "players g \<noteq> []" using assms(2) by auto
  then obtain j where j: "getNextPlayerIndex g = Inr j"
    using getNextPlayerIndex_returns by blast
  have p: "js_index (players g) (int (currentPlayerIndex g)) = Some (players g ! currentPlayerIndex g)"
    using assms(2) by (simp add: js_index_def)
  show ?thesis
    using assms(1) j p by (simp add: submitEvent_def Let_def accepted_def)
qed

lemma startGame_success:
  assumes "2 \<le> length (case playersArg of Some ps \<Rightarrow> ps | None \<Rightarrow> players g0)"
    and "fetch (startingCentury (settings g0)) = Some ev"
    and "startGame (Some g0) playersArg fetch now = Some g"
  shows "eventChain g = [\<lparr>playerId = ''system'', playerName = ''Game'', event = ev,
                         wasChecked = True, wasCorrect = Some True, timestamp = now\<rparr>]"
  using assms by (cases playersArg) (auto simp: startGame_def Let_def)

lemma submitEvent_chain:
  assumes "submitEvent (Some g) ev now = Inr (Some g', r)"
  shows "g' = g \<or> (\<exists>e. eventChain g' = eventChain g @ [e])"
  using assms
  by (auto simp: submitEvent_def Let_def split: if_splits option.splits sum.splits)

lemma callBullshit_chain:
  assumes "callBullshit (Some g) c = Inr (Some g')" and "eventChain g \<noteq> []"
  shows "eventChain g' = (eventChain g)[length (eventChain g) - 1 :=
           (eventChain g ! (length (eventChain g) - 1))\<lparr>wasChecked := True,
              wasCorrect := Some (wasEventCorrect (processBullshitCall g c))\<rparr>]"
  using assms
  by (auto simp: callBullshit_def Let_def split: if_splits option.splits)

text \<open>The entry the game starts on stays first in the chain and stays checked.\<close>

lemma reachable_seed_checked:
  "reachable g \<Longrightarrow> eventChain g \<noteq> [] \<and> wasChecked (eventChain g ! 0)"
proof (induction rule: reachable.induct)
  case (start playersArg g0 fetch ev now g)
  then show ?case using startGame_success [OF start.hyps] by simp
next
  case (submit g ev now g' r)
  from submitEvent_chain [OF submit.hyps(2)] submit.IH show ?case
    by (auto simp: nth_append)
next
  case (call g callerId g')
  have ne: "eventChain g \<noteq> []" using call.IH by simp
  from callBullshit_chain [OF call.hyps(2) ne] call.IH show ?case
    by (auto simp: nth_list_update)
qed

lemma reachable_unresolved_less:
  assumes "reachable g"
  shows "length (unresolved g) < length (eventChain g)"
proof -
  from reachable_seed_checked [OF assms]
  have "eventChain g ! 0 \<in> set (eventChain g)" "\<not> (\<not> wasChecked (eventChain g ! 0))"
    by auto
  then show ?thesis unfolding unresolved_def by (rule length_filter_less)
qed

subsection \<open>A run of the engine\<close>

lemma run_lobby:
  "joinGame (createGame ''Alice'' (Some ''ABC123'') ''XYZ789'' ''p-alice'') ''Bob'' ''p-bob'' =
     Some lobby_state"
  by (simp add: joinGame_def createGame_def lobby_state_def alice_def bob_def Let_def
      DEFAULT_SETTINGS_def DEFAULT_BUFFER_RULES_def)

lemma run_start: "startGame (Some lobby_state) None fetch_lincoln 100 = Some started_state"
  by (simp add: startGame_def lobby_state_def started_state_def Let_def system_entry_def
      DEFAULT_SETTINGS_def DEFAULT_BUFFER_RULES_def lincoln_def fetch_lincoln_def)

lemma run_submit_hastings:
  "submitEvent (Some started_state) hastings 200 = Inr (Some one_pending_state, accepted)"
  by code_simp

lemma run_submit_magna_carta:
  "submitEvent (Some one_pending_state) magna_carta 300 = Inr (Some two_pending_state, accepted)"
  by code_simp

lemma run_challenge: "callBullshit (Some one_pending_state) ''p-bob'' = Inr (Some finished_state)"
  by code_simp

lemma run_submit_after_finish:
  "submitEvent (Some finished_state) magna_carta 400 =
     Inr (Some submitted_after_finish_state, accepted)"
  by code_simp

lemma reachable_started: "reachable started_state"
proof (rule reachable.start [where playersArg = None and ?g0.0 = lobby_state
        and fetch = fetch_lincoln and ev = lincoln and now = 100])
  show "2 \<le> length (case None of Some ps \<Rightarrow> ps | None \<Rightarrow> players lobby_state)"
    by (simp add: lobby_state_def)
  show "fetch_lincoln (startingCentury (settings lobby_state)) = Some lincoln"
    by (simp add: fetch_lincoln_def)
  show "startGame (Some lobby_state) None fetch_lincoln 100 = Some started_state"
    by (rule run_start)
qed

lemma reachable_one_pending: "reachable one_pending_state"
  using reachable_started run_submit_hastings by (rule reachable.submit)

lemma reachable_two_pending: "reachable two_pending_state"
  using reachable_one_pending run_submit_magna_carta by (rule reachable.submit)

lemma reachable_finished: "reachable finished_state"
  using reachable_one_pending run_challenge by (rule reachable.call)

text \<open>
  C3 (as stated). After the start, Alice submits the Battle of Hastings and Bob, instead
  of challenging, submits Magna Carta: the second submission is accepted although an
  unresolved entry exists, and the reached state has two unresolved entries.
\<close>

theorem two_unresolved_entries_counterexample:
  "reachable one_pending_state
   \<and> length (unresolved one_pending_state) = 1
   \<and> submitEvent (Some one_pending_state) magna_carta 300 = Inr (Some two_pending_state, accepted)
   \<and> submit_success accepted
   \<and> reachable two_pending_state
   \<and> length (unresolved two_pending_state) = 2"
proof -
  have "length (unresolved one_pending_state) = 1" by code_simp
  moreover have "length (unresolved two_pending_state) = 2" by code_simp
  ultimately show ?thesis
    using reachable_one_pending reachable_two_pending run_submit_magna_carta
    by (simp add: accepted_def)
qed

text \<open>
  C3 (amended). In every game state reachable by \<open>startGame\<close>, \<open>submitEvent\<close> and
  \<open>callBullshit\<close>, the entry the game started on is resolved, so fewer entries are
  unresolved than the chain has entries; their number is not bounded by one, since
  submitting a fact while an unresolved entry exists does not fail: whenever the title
  is no duplicate and the current player exists, the submission is accepted and adds one
  more unresolved entry.
\<close>

theorem reachable_unresolved_entries:
  assumes "reachable g"
  shows "wasChecked (eventChain g ! 0)
         \<and> length (unresolved g) < length (eventChain g)
         \<and> (\<forall>ev now. \<not> isDuplicate g ev \<and> currentPlayerIndex g < length (players g) \<longrightarrow>
              (\<exists>g'. submitEvent (Some g) ev now = Inr (Some g', accepted) \<and> reachable g' \<and>
                    length (unresolved g') = length (unresolved g) + 1))"
proof -
  have "\<exists>g'. submitEvent (Some g) ev now = Inr (Some g', accepted) \<and> reachable g' \<and>
              length (unresolved g') = length (unresolved g) + 1"
    if nd: "\<not> isDuplicate g ev" and cur: "currentPlayerIndex g < length (players g)" for ev now
  proof -
    from submitEvent_accepts [OF nd cur, of now] obtain g' where
      s: "submitEvent (Some g) ev now = Inr (Some g', accepted)" and
      c: "eventChain g' = eventChain g @
            [\<lparr>playerId = player_id (players g ! currentPlayerIndex g),
              playerName = name (players g ! currentPlayerIndex g),
              event = ev, wasChecked = False, wasCorrect = None, timestamp = now\<rparr>]"
      by blast
    have "reachable g'" using assms s by (rule reachable.submit)
    moreover have "length (unresolved g') = length (unresolved g) + 1"
      by (simp add: unresolved_def c)
    ultimately show ?thesis using s by blast
  qed
  then show ?thesis
    using reachable_seed_checked [OF assms] reachable_unresolved_less [OF assms] by blast
qed

theorem reachable_unresolved_entries_witness:
  "reachable one_pending_state
   \<and> wasChecked (eventChain one_pending_state ! 0)
   \<and> length (unresolved one_pending_state) < length (eventChain one_pending_state)
   \<and> \<not> isDuplicate one_pending_state magna_carta
   \<and> currentPlayerIndex one_pending_state < length (players one_pending_state)
   \<and> (\<exists>g'. submitEvent (Some one_pending_state) magna_carta 300 = Inr (Some g', accepted) \<and>
           reachable g' \<and>
           length (unresolved g') = length (unresolved one_pending_state) + 1)"
proof -
  have nd: "\<not> isDuplicate one_pending_state magna_carta" by code_simp
  have cur: "currentPlayerIndex one_pending_state < length (players one_pending_state)"
    by code_simp
  from reachable_unresolved_entries [OF reachable_one_pending] nd cur reachable_one_pending
  show ?thesis by blast
qed

text \<open>
  C5 (as stated). The finished game (phase \<open>results\<close>) accepts Bob's Magna Carta: the
  call succeeds and the chain, among other fields, changes.
\<close>

theorem submit_outside_playing_counterexample:
  "callBullshit (Some one_pending_state) ''p-bob'' = Inr (Some finished_state)
   \<and> phase finished_state = results
   \<and> submitEvent (Some finished_state) magna_carta 400 =
       Inr (Some submitted_after_finish_state, accepted)
   \<and> submit_success accepted
   \<and> length (eventChain finished_state) = 2
   \<and> length (eventChain submitted_after_finish_state) = 3"
  using run_challenge run_submit_after_finish
  by (simp add: finished_state_def submitted_after_finish_state_def accepted_def)

text \<open>
  C5 (amended). \<open>submitEvent\<close> does not look at the phase. For every game state,
  whatever its phase, a fact whose title duplicates (ignoring case) the title of a chain
  entry is rejected with a failure result and the state is left unchanged, and with no
  active game the call fails likewise; a fact that is no duplicate, submitted while the
  current player exists, is accepted also when the phase is not Playing: it is appended
  as an unresolved entry and the phase stays as it is.
\<close>

theorem submitEvent_rejects_duplicates_only:
  "(isDuplicate g ev \<longrightarrow> submitEvent (Some g) ev now = Inr (Some g, rejected_duplicate))
   \<and> \<not> submit_success rejected_duplicate
   \<and> submitEvent None ev now =
       Inr (None, \<lparr>submit_success = False, message = ''No active game''\<rparr>)
   \<and> (\<not> isDuplicate g ev \<and> currentPlayerIndex g < length (players g) \<longrightarrow>
        (\<exists>g'. submitEvent (Some g) ev now = Inr (Some g', accepted) \<and>
              eventChain g' = eventChain g @
                [\<lparr>playerId = player_id (players g ! currentPlayerIndex g),
                  playerName = name (players g ! currentPlayerIndex g),
                  event = ev, wasChecked = False, wasCorrect = None, timestamp = now\<rparr>] \<and>
              phase g' = phase g))"
proof -
  have "submitEvent None ev now =
          Inr (None, \<lparr>submit_success = False, message = ''No active game''\<rparr>)"
    by (simp add: submitEvent_def)
  moreover have "\<not> submit_success rejected_duplicate"
    by (simp add: rejected_duplicate_def)
  ultimately show ?thesis
    using submitEvent_duplicate [of g ev now] submitEvent_accepts [of g ev now] by blast
qed

theorem submitEvent_rejects_duplicates_only_witness:
  "phase finished_state \<noteq> playing
   \<and> isDuplicate finished_state hastings_capitals
   \<and> submitEvent (Some finished_state) hastings_capitals 400 =
       Inr (Some finished_state, rejected_duplicate)
   \<and> \<not> isDuplicate finished_state magna_carta
   \<and> currentPlayerIndex finished_state < length (players finished_state)
   \<and> (\<exists>g'. submitEvent (Some finished_state) magna_carta 400 = Inr (Some g', accepted) \<and>
           length (eventChain g') = 3 \<and> phase g' = results)"
proof -
  have ph: "phase finished_state = results" by (simp add: finished_state_def)
  have d: "isDuplicate finished_state hastings_capitals" by code_simp
  have nd: "\<not> isDuplicate finished_state magna_carta" by code_simp
  have cur: "currentPlayerIndex finished_state < length (players finished_state)" by code_simp
  have l: "length (eventChain finished_state) = 2" by (simp add: finished_state_def)
  from submitEvent_rejects_duplicates_only [of finished_state hastings_capitals 400] d
  have r: "submitEvent (Some finished_state) hastings_capitals 400 =
             Inr (Some finished_state, rejected_duplicate)" by blast
  from submitEvent_rejects_duplicates_only [of finished_state magna_carta 400] nd cur
  obtain g' where "submitEvent (Some finished_state) magna_carta 400 = Inr (Some g', accepted)"
    and "eventChain g' = eventChain finished_state @
           [\<lparr>playerId = player_id (players finished_state ! currentPlayerIndex finished_state),
             playerName = name (players finished_state ! currentPlayerIndex finished_state),
             event = magna_carta, wasChecked = False, wasCorrect = None, timestamp = 400\<rparr>]"
    and "phase g' = phase finished_state" by blast
  then have "\<exists>g'. submitEvent (Some finished_state) magna_carta 400 = Inr (Some g', accepted) \<and>
           length (eventChain g') = 3 \<and> phase g' = results"
    using l ph by auto
  then show ?thesis using ph d nd cur r by simp
qed

section \<open>Properties of the event cache\<close>

lemma map_of_obj_set:
  "k \<noteq> ''__proto__'' \<Longrightarrow> map_of (obj_set obj k v) k = Some v"
proof -
  assume k: "k \<noteq> ''__proto__''"
  have a: "k \<in> set (map fst obj) \<Longrightarrow>
        map_of (map (\<lambda>(k', v'). if k' = k then (k', v) else (k', v')) obj) k = Some v"
    by (induction obj) auto
  have b: "map_of (takeWhile P obj @ [(k, v)] @ dropWhile P obj) k = Some v"
    if "k \<notin> set (map fst obj)" for P
  proof -
    have "set (takeWhile P obj) \<subseteq> set obj"
      by (auto dest: set_takeWhileD)
    then have "k \<notin> fst ` set (takeWhile P obj)"
      using that by auto
    then have "map_of (takeWhile P obj) k = None"
      by (simp add: map_of_eq_None_iff)
    then show ?thesis by (simp add: map_add_def)
  qed
  have c: "map_of (obj @ [(k, v)]) k = Some v" if "k \<notin> set (map fst obj)"
  proof -
    have "map_of obj k = None"
      using that by (simp add: map_of_eq_None_iff)
    then show ?thesis by (simp add: map_add_def)
  qed
  show ?thesis
  proof (cases "k \<in> set (map fst obj)")
    case True
    then show ?thesis using k a by (simp add: obj_set_def)
  next
    case False
    then show ?thesis using k b [OF False] c [OF False] by (simp add: obj_set_def del: map_of_append)
  qed
qed

lemma map_of_obj_delete:
  "k \<noteq> r \<Longrightarrow> map_of (obj_delete obj r) k = map_of obj k"
  by (induction obj) (auto simp: obj_delete_def)

lemma keys_obj_delete: "fst ` set (obj_delete obj r) = fst ` set obj - {r}"
  by (induction obj) (auto simp: obj_delete_def)

lemma foldl_obj_delete_keys:
  "fst ` set (foldl obj_delete obj rs) = fst ` set obj - set rs"
  by (induction rs arbitrary: obj) (auto simp: keys_obj_delete)

lemma foldl_obj_delete_map_of:
  "k \<notin> set rs \<Longrightarrow> map_of (foldl obj_delete obj rs) k = map_of obj k"
  by (induction rs arbitrary: obj) (auto simp: map_of_obj_delete)


lemma getCache_version: "version (getCache item) = CACHE_VERSION"
  by (cases item) (auto simp: getCache_def emptyCache_def)

lemma getCache_saveCache:
  "version cache = CACHE_VERSION \<Longrightarrow>
   events (getCache (saveCache cache)) =
     (if length (events cache) > MAX_CACHE_SIZE
      then foldl obj_delete (events cache)
             (take (length (events cache) - MAX_CACHE_SIZE)
                (map fst (sort_key (\<lambda>(k, v). cachedAt v) (events cache))))
      else events cache)"
  by (simp add: saveCache_def getCache_def Let_def obj_keys_def)

lemma cache_roundtrip:
  assumes same: "normalizeEventName s' = normalizeEventName s"
    and key: "normalizeEventName s \<noteq> ''__proto__''"
    and kept: "normalizeEventName s \<in> set (obj_keys (events (getCache (cacheEvent item s e now))))"
  shows "getCachedEvent (cacheEvent item s e now) s' =
           CachedHit (e\<lparr>date := dateFromISOString (toISOString (date e))\<rparr>)"
proof -
  define k where "k = normalizeEventName s"
  define v where "v = \<lparr>title = title e, date = toISOString (date e), year = year e,
      month = month e, day = day e, wikipediaUrl = wikipediaUrl e,
      description = description e, cachedAt = now\<rparr>"
  define cache where "cache = (getCache item)\<lparr>events := obj_set (events (getCache item)) k v\<rparr>"
  have ce: "cacheEvent item s e now = saveCache cache"
    by (simp add: cacheEvent_def Let_def cache_def k_def v_def)
  have ver: "version cache = CACHE_VERSION"
    by (simp add: cache_def getCache_version)
  have set: "map_of (events cache) k = Some v"
    using key by (simp add: cache_def k_def map_of_obj_set)
  have "map_of (events (getCache (saveCache cache))) k = Some v"
  proof (cases "length (events cache) > MAX_CACHE_SIZE")
    case True
    let ?rm = "take (length (events cache) - MAX_CACHE_SIZE)
                (map fst (sort_key (\<lambda>(k, v). cachedAt v) (events cache)))"
    have ev: "events (getCache (saveCache cache)) = foldl obj_delete (events cache) ?rm"
      using True by (simp add: getCache_saveCache [OF ver])
    have "k \<in> fst ` set (foldl obj_delete (events cache) ?rm)"
      using kept by (simp add: ce ev k_def obj_keys_def)
    then have "k \<notin> set ?rm"
      by (simp add: foldl_obj_delete_keys)
    then show ?thesis
      using set by (simp add: ev foldl_obj_delete_map_of)
  next
    case False
    then show ?thesis using set by (simp add: getCache_saveCache [OF ver])
  qed
  then have "obj_get (events (getCache (cacheEvent item s e now))) (normalizeEventName s') = Own v"
    by (simp add: obj_get_def ce same k_def)
  then show ?thesis
    by (simp add: getCachedEvent_def Let_def v_def)
qed

lemma length_obj_set: "length (obj_set obj k v) \<le> Suc (length obj)"
  by (simp add: obj_set_def) (metis length_append takeWhile_dropWhile_id order_refl)

lemma keys_obj_set: "k \<noteq> ''__proto__'' \<Longrightarrow> k \<in> fst ` set (obj_set obj k v)"
  using map_of_obj_set [of k obj v] by (metis map_of_eq_None_iff option.distinct(1))

lemma cache_roundtrip_no_eviction:
  assumes same: "normalizeEventName s' = normalizeEventName s"
    and key: "normalizeEventName s \<noteq> ''__proto__''"
    and room: "length (events (getCache item)) < MAX_CACHE_SIZE"
  shows "getCachedEvent (cacheEvent item s e now) s' =
           CachedHit (e\<lparr>date := dateFromISOString (toISOString (date e))\<rparr>)"
proof (rule cache_roundtrip [OF same key])
  define v where "v = \<lparr>title = title e, date = toISOString (date e), year = year e,
      month = month e, day = day e, wikipediaUrl = wikipediaUrl e,
      description = description e, cachedAt = now\<rparr>"
  define cache where "cache = (getCache item)\<lparr>events :=
      obj_set (events (getCache item)) (normalizeEventName s) v\<rparr>"
  have ce: "cacheEvent item s e now = saveCache cache"
    by (simp add: cacheEvent_def Let_def cache_def v_def)
  have ver: "version cache = CACHE_VERSION"
    by (simp add: cache_def getCache_version)
  have "length (events cache) \<le> MAX_CACHE_SIZE"
    using room length_obj_set [of "events (getCache item)" "normalizeEventName s" v]
    by (simp add: cache_def)
  then have "events (getCache (saveCache cache)) = events cache"
    by (simp add: getCache_saveCache [OF ver])
  then show "normalizeEventName s \<in> set (obj_keys (events (getCache (cacheEvent item s e now))))"
    using keys_obj_set [OF key] by (simp add: ce obj_keys_def cache_def)
qed

text \<open>
  C10. Storing an event under a name with \<open>cacheEvent\<close> and reading it with
  \<open>getCachedEvent\<close> under a name with the same normalized key should return the event.
  For the name \<open>__proto__\<close> it does not: the assignment \<open>cache.events[key] = ...\<close> sets
  the prototype of the \<open>events\<close> object and creates no property, the saved cache is
  empty, and the read builds its result from \<open>Object.prototype\<close>.
\<close>

theorem cacheEvent_proto_key_lost:
  "normalizeEventName ''__proto__'' = ''__proto__''
   \<and> cacheEvent Absent ''__proto__'' hastings 1000 = Stored emptyCache
   \<and> getCachedEvent (cacheEvent Absent ''__proto__'' hastings 1000) ''__proto__'' = PrototypeValue
   \<and> getCachedEvent (cacheEvent Absent ''Battle  of HASTINGS'' hastings 1000) '' battle of Hastings ''
       = CachedHit hastings"
  by code_simp

section \<open>Properties of the Wikipedia service\<close>

lemma william_biographical: "isBiographical (toLowerCase (page_extract william_page))"
  by code_simp

lemma william_no_biographical_date:
  "extractBiographicalDate (page_extract william_page) (page_title william_page) = None"
  by code_simp

lemma william_passes_gate: "isHistoricalEvent (page_extract william_page) (categories william_page)"
  by code_simp

lemma william_date: "extractDateFromText (page_extract william_page) = Some (dateInfo None (1066, 9, 14))"
  by code_simp

lemma william_title_no_meta: "\<not> isTimePeriodOrMetaPage ''William I''"
  by code_simp

lemma century_title_meta: "isTimePeriodOrMetaPage ''11th century''"
  by code_simp

lemma william_details:
  "getEventDetails william_world b ''William I'' =
     (Some william_event, b\<lparr>requests := requests b @ [PageRequest ''William I'']\<rparr>)"
proof -
  have p: "pageAnswer william_world ''William I'' = Page william_page"
    by (simp add: william_world_def)
  show ?thesis
    by (simp add: getEventDetails_def william_title_no_meta p william_no_biographical_date
        william_passes_gate william_date dateInfo_def william_event_def Let_def)
       (simp add: william_page_def)
qed

lemma william_validate:
  "validateEvent william_world b ''william i'' =
     (Some william_event, b\<lparr>requests := requests b @ william_requests\<rparr>)"
proof -
  have s: "searchAnswer william_world ''william i'' 10 =
             Some [\<lparr>result_title = ''11th century'', pageid = 1, snippet = []\<rparr>,
                   \<lparr>result_title = ''William I'', pageid = 2, snippet = []\<rparr>]"
    by (simp add: william_world_def)
  show ?thesis
    by (simp add: validateEvent_def searchWikipediaEvents_def s century_title_meta
        william_title_no_meta william_details william_requests_def)
qed

lemma getEventDetails_trace:
  "\<exists>r tr. \<forall>b. getEventDetails w b t = (r, b\<lparr>requests := requests b @ tr\<rparr>)"
proof (cases "isTimePeriodOrMetaPage t")
  case True
  then have "\<forall>b. getEventDetails w b t = (None, b\<lparr>requests := requests b @ []\<rparr>)"
    by (simp add: getEventDetails_def)
  then show ?thesis by blast
next
  case False
  define r where "r = fst (getEventDetails w \<lparr>localStorage = Absent, requests = []\<rparr> t)"
  have "\<forall>b. getEventDetails w b t = (r, b\<lparr>requests := requests b @ [PageRequest t]\<rparr>)"
    using False unfolding r_def
    by (auto simp: getEventDetails_def Let_def split: PageAnswer.splits option.splits)
  then show ?thesis by blast
qed

lemma validateEvent_loop_trace:
  "\<exists>r tr. \<forall>b. validateEvent_loop w b rs = (r, b\<lparr>requests := requests b @ tr\<rparr>)"
proof (induction rs)
  case Nil
  have "\<forall>b. validateEvent_loop w b [] = (None, b\<lparr>requests := requests b @ []\<rparr>)"
    by simp
  then show ?case by blast
next
  case (Cons a rs)
  from Cons.IH obtain r tr where
    ih: "\<And>b. validateEvent_loop w b rs = (r, b\<lparr>requests := requests b @ tr\<rparr>)" by blast
  from getEventDetails_trace [of w "result_title a"] obtain r1 tr1 where
    d: "\<And>b. getEventDetails w b (result_title a) = (r1, b\<lparr>requests := requests b @ tr1\<rparr>)"
    by blast
  show ?case
  proof (cases "isTimePeriodOrMetaPage (result_title a)")
    case True
    then have "\<forall>b. validateEvent_loop w b (a # rs) = (r, b\<lparr>requests := requests b @ tr\<rparr>)"
      by (simp add: ih)
    then show ?thesis by blast
  next
    case False
    show ?thesis
    proof (cases r1)
      case None
      then have "\<forall>b. validateEvent_loop w b (a # rs) = (r, b\<lparr>requests := requests b @ (tr1 @ tr)\<rparr>)"
        using False by (simp add: d ih)
      then show ?thesis by blast
    next
      case (Some e)
      then have "\<forall>b. validateEvent_loop w b (a # rs) = (r1, b\<lparr>requests := requests b @ tr1\<rparr>)"
        using False by (simp add: d)
      then show ?thesis by blast
    qed
  qed
qed

lemma validateEvent_trace:
  "\<exists>r tr. \<forall>b. validateEvent w b q =
       (r, b\<lparr>requests := requests b @ SearchRequest q 10 # tr\<rparr>)"
proof -
  define found where "found = (case searchAnswer w q 10 of Some f \<Rightarrow> f | None \<Rightarrow> [])"
  from validateEvent_loop_trace [of w found] obtain r tr where
    l: "\<And>b. validateEvent_loop w b found = (r, b\<lparr>requests := requests b @ tr\<rparr>)" by blast
  show ?thesis
  proof (cases "found = []")
    case True
    then have "\<forall>b. validateEvent w b q = (None, b\<lparr>requests := requests b @ SearchRequest q 10 # []\<rparr>)"
      by (simp add: validateEvent_def searchWikipediaEvents_def found_def)
    then show ?thesis by blast
  next
    case False
    then have "\<forall>b. validateEvent w b q = (r, b\<lparr>requests := requests b @ SearchRequest q 10 # tr\<rparr>)"
      by (simp add: validateEvent_def searchWikipediaEvents_def found_def [symmetric] l)
    then show ?thesis by blast
  qed
qed

text \<open>
  C4 (as stated). \<open>validateEvent\<close> finds William I, writes nothing to the cache (a read
  of the cache under the query finds nothing), and the same query sends the search
  request and the page request a second time.
\<close>

theorem validateEvent_second_lookup_counterexample:
  "validateEvent william_world fresh_browser ''william i'' =
     (Some william_event, fresh_browser\<lparr>requests := william_requests\<rparr>)
   \<and> getCachedEvent (localStorage (fresh_browser\<lparr>requests := william_requests\<rparr>)) ''william i''
       = NotCached
   \<and> validateEvent william_world (fresh_browser\<lparr>requests := william_requests\<rparr>) ''william i'' =
       (Some william_event, fresh_browser\<lparr>requests := william_requests @ william_requests\<rparr>)"
proof -
  have "getCachedEvent Absent ''william i'' = NotCached" by code_simp
  then show ?thesis
    by (simp add: william_validate fresh_browser_def)
qed

text \<open>
  C4 (amended). Classifying the same query text twice yields identical output (Wikipedia
  answering the same), but by a second external lookup: \<open>validateEvent\<close> neither reads
  nor writes the Result Cache, so \<open>localStorage\<close> is as it was, and the second call sends
  again the search request and every page request the first call sent.
\<close>

theorem validateEvent_repeats_lookup:
  "\<exists>r tr. validateEvent w b q = (r, b\<lparr>requests := requests b @ SearchRequest q 10 # tr\<rparr>)
     \<and> validateEvent w (snd (validateEvent w b q)) q =
         (r, b\<lparr>requests := requests b @ SearchRequest q 10 # tr @ SearchRequest q 10 # tr\<rparr>)
     \<and> localStorage (snd (validateEvent w (snd (validateEvent w b q)) q)) = localStorage b"
proof -
  from validateEvent_trace [of w q] obtain r tr where
    t: "\<And>b. validateEvent w b q = (r, b\<lparr>requests := requests b @ SearchRequest q 10 # tr\<rparr>)"
    by blast
  have "validateEvent w (snd (validateEvent w b q)) q =
         (r, b\<lparr>requests := requests b @ SearchRequest q 10 # tr @ SearchRequest q 10 # tr\<rparr>)"
    by (simp add: t)
  then show ?thesis using t by auto
qed

theorem validateEvent_repeats_lookup_witness:
  "fst (validateEvent william_world fresh_browser ''william i'') = Some william_event
   \<and> fst (validateEvent william_world
            (snd (validateEvent william_world fresh_browser ''william i'')) ''william i'')
       = Some william_event
   \<and> requests (snd (validateEvent william_world
            (snd (validateEvent william_world fresh_browser ''william i'')) ''william i''))
       = william_requests @ william_requests
   \<and> localStorage (snd (validateEvent william_world
            (snd (validateEvent william_world fresh_browser ''william i'')) ''william i''))
       = Absent"
proof -
  from validateEvent_repeats_lookup [of william_world fresh_browser "''william i''"]
  obtain r tr where
    a: "validateEvent william_world fresh_browser ''william i'' =
          (r, fresh_browser\<lparr>requests := requests fresh_browser @ SearchRequest ''william i'' 10 # tr\<rparr>)"
    and b: "validateEvent william_world
              (snd (validateEvent william_world fresh_browser ''william i'')) ''william i'' =
          (r, fresh_browser\<lparr>requests := requests fresh_browser @
                SearchRequest ''william i'' 10 # tr @ SearchRequest ''william i'' 10 # tr\<rparr>)"
    by blast
  from a have r: "r = Some william_event" and tr: "tr = [PageRequest ''William I'']"
    by (simp_all add: william_validate william_requests_def fresh_browser_def)
  show ?thesis
    using a b by (simp add: r tr william_requests_def fresh_browser_def)
qed

text \<open>
  C6 (as stated). The page about William I says "was a king" (biographical phrasing) and
  gives no date of birth or death: none of the four patterns matches and
  \<open>extractBiographicalDate\<close> returns nothing. \<open>getEventDetails\<close> does not reject the page:
  it passes the event gate ("battle") and the generic extraction dates it 14 October 1066.
\<close>

theorem biographical_without_date_counterexample:
  "isBiographical (toLowerCase (page_extract william_page))
   \<and> rx_match True birthPattern1 (page_extract william_page) = None
   \<and> rx_match True birthPattern2 (page_extract william_page) = None
   \<and> rx_match True deathPattern1 (page_extract william_page) = None
   \<and> rx_match True deathPattern2 (page_extract william_page) = None
   \<and> extractBiographicalDate (page_extract william_page) (page_title william_page) = None
   \<and> getEventDetails william_world fresh_browser ''William I'' =
       (Some william_event, fresh_browser\<lparr>requests := [PageRequest ''William I'']\<rparr>)
   \<and> year william_event = 1066"
proof -
  have "rx_match True birthPattern1 (page_extract william_page) = None" by code_simp
  moreover have "rx_match True birthPattern2 (page_extract william_page) = None" by code_simp
  moreover have "rx_match True deathPattern1 (page_extract william_page) = None" by code_simp
  moreover have "rx_match True deathPattern2 (page_extract william_page) = None" by code_simp
  ultimately show ?thesis
    by (simp add: william_biographical william_no_biographical_date william_details
        fresh_browser_def william_event_def)
qed

text \<open>
  C6 (amended). For every candidate whose descriptive text signals a person (biographical
  phrasing or birth/death language) but from which \<open>extractBiographicalDate\<close> extracts no
  complete date of birth or death, \<open>getEventDetails\<close> does not reject the candidate at
  that point: it falls through to the generic event gate and date extraction and returns
  what they give, so the candidate is rejected only if the gate or the date extraction
  rejects it.
\<close>

theorem getEventDetails_biographical_fallthrough:
  assumes "\<not> isTimePeriodOrMetaPage pageTitle"
    and "pageAnswer w pageTitle = Page page"
    and "isBiographical (toLowerCase (page_extract page))"
    and "extractBiographicalDate (page_extract page) (page_title page) = None"
  shows "fst (getEventDetails w b pageTitle) =
           (if isHistoricalEvent (page_extract page) (categories page)
            then map_option
                   (\<lambda>info. \<lparr>title = (case titlePrefix info of
                                        Some prefix \<Rightarrow> prefix @ '' '' @ page_title page
                                      | None \<Rightarrow> page_title page),
                             date = info_date info, year = info_year info,
                             month = info_month info, day = info_day info,
                             wikipediaUrl = fullurl page,
                             description = Some (page_extract page)\<rparr>)
                   (extractDateFromText (page_extract page))
            else None)"
  using assms(1,2,4) by (simp add: getEventDetails_def Let_def split: option.splits)

theorem getEventDetails_biographical_fallthrough_witness:
  "\<not> isTimePeriodOrMetaPage ''William I''
   \<and> pageAnswer william_world ''William I'' = Page william_page
   \<and> isBiographical (toLowerCase (page_extract william_page))
   \<and> extractBiographicalDate (page_extract william_page) (page_title william_page) = None
   \<and> isHistoricalEvent (page_extract william_page) (categories william_page)
   \<and> fst (getEventDetails william_world fresh_browser ''William I'') = Some william_event"
proof -
  have p: "pageAnswer william_world ''William I'' = Page william_page"
    by (simp add: william_world_def)
  from getEventDetails_biographical_fallthrough
    [OF william_title_no_meta p william_biographical william_no_biographical_date, of fresh_browser]
  have "fst (getEventDetails william_world fresh_browser ''William I'') = Some william_event"
    by (simp add: william_passes_gate william_date dateInfo_def william_event_def)
       (simp add: william_page_def)
  then show ?thesis
    using william_title_no_meta p william_biographical william_no_biographical_date
      william_passes_gate by simp
qed

end
